theory Spec2Isabelle
  imports Main "HOL-Library.Word"
begin

section \<open>Go values, memory and the observable trace\<close>

text \<open>
  The Go playground is modelled by explicit state passing. Go's \<^verbatim>\<open>int\<close> is taken at its
  64-bit width (two's complement, wrapping), \<^verbatim>\<open>uint64\<close> is a 64-bit word read unsigned,
  a \<^verbatim>\<open>byte\<close> is an 8-bit word. A pointer is either nil or the address of a cell of the
  store; the store is split by the type of the cell, so a cell never changes its type.
\<close>

type_synonym goint = "64 word"
type_synonym uint64 = "64 word"
type_synonym byte = "8 word"
type_synonym addr = nat

datatype ptr = NilPtr | Ptr addr

datatype panic = NilDereference | IndexOutOfRange | SliceBoundsOutOfRange | InvalidMemory

text \<open>\<^verbatim>\<open>type User struct { Name string; Age int }\<close>\<close>

record User =
  Name :: string
  Age :: goint

text \<open>A slice header: the backing array, the offset of element 0 in it, length and capacity.\<close>

record slice =
  base :: addr
  off :: nat
  slen :: nat
  scap :: nat

text \<open>\<^verbatim>\<open>type LargeObject struct { ID int; Data []byte }\<close>\<close>

record LargeObject =
  ID :: goint
  Data :: slice

text \<open>An \<^verbatim>\<open>interface{}\<close> value: nil, or a boxed copy of an int.\<close>

datatype iface = NilIface | BoxedInt addr

text \<open>
  The counters of \<^verbatim>\<open>runtime.MemStats\<close> (general and heap statistics); the type belongs to
  the Go runtime, not to the repository.
\<close>

record runtime_MemStats =
  Alloc :: uint64
  TotalAlloc :: uint64
  Sys :: uint64
  Lookups :: uint64
  Mallocs :: uint64
  Frees :: uint64
  HeapAlloc :: uint64
  HeapSys :: uint64
  HeapIdle :: uint64
  HeapInuse :: uint64
  HeapReleased :: uint64
  HeapObjects :: uint64

text \<open>\<^verbatim>\<open>type MemStats struct { Before runtime.MemStats; After runtime.MemStats }\<close>\<close>

record MemStats =
  Before :: runtime_MemStats
  After :: runtime_MemStats

text \<open>
  What an execution does that can be seen from outside a function body: entering and leaving
  a function, a call of \<^verbatim>\<open>fmt.Printf\<close>/\<^verbatim>\<open>fmt.Println\<close> with the text written, the
  creation of a cell, an assignment through a pointer to a field of a \<^verbatim>\<open>User\<close> or
  \<^verbatim>\<open>LargeObject\<close> that exists already (with the field's name, the value it held and the
  value assigned), an assignment to an element of a slice or to a package-level variable,
  the evaluation of a function literal, and the two calls into the runtime. The local
  variables of a function, such as the \<^verbatim>\<open>MemStats\<close> of \<^verbatim>\<open>TrackMemory\<close>, are values of the
  model and leave no event.
\<close>

datatype event =
    Enter string
  | Leave string
  | Print string
  | Allocate addr
  | FieldWrite addr string goint goint
  | ElemWrite addr nat
  | GlobalWrite string
  | MakeClosure string
  | RuntimeGC
  | RuntimeReadMemStats

record world =
  trace :: "event list"
  next_addr :: addr
  int_cells :: "addr \<rightharpoonup> goint"
  user_cells :: "addr \<rightharpoonup> User"
  ptr_cells :: "addr \<rightharpoonup> ptr"
  large_cells :: "addr \<rightharpoonup> LargeObject"
  int_arrays :: "addr \<rightharpoonup> goint list"
  byte_arrays :: "addr \<rightharpoonup> byte list"
  ptr_arrays :: "addr \<rightharpoonup> ptr list"
  globalInterface :: iface
  globalPtr :: ptr
  mem_reads :: nat

text \<open>A Go function value: nil, or a body that runs on the world and may panic.\<close>

type_synonym func = "(world \<Rightarrow> panic + world) option"
type_synonym func_int = "(world \<Rightarrow> panic + goint \<times> world) option"

definition and_then :: "panic + 'a \<Rightarrow> ('a \<Rightarrow> panic + 'b) \<Rightarrow> panic + 'b" where
  "and_then r f = (case r of Inl p \<Rightarrow> Inl p | Inr x \<Rightarrow> f x)"

definition emit :: "event \<Rightarrow> world \<Rightarrow> world" where
  "emit e w = trace_update (\<lambda>t. t @ [e]) w"

definition enter :: "string \<Rightarrow> world \<Rightarrow> world" where
  "enter f w = emit (Enter f) w"

definition leave :: "string \<Rightarrow> world \<Rightarrow> world" where
  "leave f w = emit (Leave f) w"

subsection \<open>Formatting as \<^verbatim>\<open>fmt\<close> does\<close>

definition nl :: string where
  "nl = [CHR 0x0A]"

definition digit :: "nat \<Rightarrow> char" where
  "digit n = ''0123456789'' ! n"

fun dec :: "nat \<Rightarrow> string" where
  "dec n = (if n < 10 then [digit n] else dec (n div 10) @ [digit (n mod 10)])"

declare dec.simps [simp del]

definition hexdigit :: "nat \<Rightarrow> char" where
  "hexdigit n = ''0123456789abcdef'' ! n"

fun hex :: "nat \<Rightarrow> string" where
  "hex n = (if n < 16 then [hexdigit n] else hex (n div 16) @ [hexdigit (n mod 16)])"

declare hex.simps [simp del]

text \<open>\<^verbatim>\<open>%d\<close> of an \<^verbatim>\<open>int\<close> and of a \<^verbatim>\<open>uint64\<close>.\<close>

definition fmt_d_int :: "goint \<Rightarrow> string" where
  "fmt_d_int v = (if sint v < 0 then ''-'' @ dec (nat (- sint v)) else dec (nat (sint v)))"

definition fmt_d_uint64 :: "uint64 \<Rightarrow> string" where
  "fmt_d_uint64 v = dec (unat v)"

text \<open>\<^verbatim>\<open>%p\<close> of a pointer.\<close>

definition fmt_p :: "ptr \<Rightarrow> string" where
  "fmt_p p = (case p of NilPtr \<Rightarrow> ''0x0'' | Ptr a \<Rightarrow> ''0x'' @ hex a)"

text \<open>\<^verbatim>\<open>%+v\<close> of a \<^verbatim>\<open>User\<close>.\<close>

definition fmt_User :: "User \<Rightarrow> string" where
  "fmt_User u = ''{Name:'' @ Name u @ '' Age:'' @ fmt_d_int (Age u) @ ''}''"

text \<open>\<^verbatim>\<open>%v\<close> of a \<^verbatim>\<open>[]int\<close>: the elements in brackets, separated by spaces.\<close>

fun join_ints :: "goint list \<Rightarrow> string" where
  "join_ints [] = []"
| "join_ints [x] = fmt_d_int x"
| "join_ints (x # y # ys) = fmt_d_int x @ '' '' @ join_ints (y # ys)"

definition fmt_ints :: "goint list \<Rightarrow> string" where
  "fmt_ints xs = ''['' @ join_ints xs @ '']''"

definition Printf :: "string \<Rightarrow> world \<Rightarrow> world" where
  "Printf s w = emit (Print s) w"

definition Println :: "string \<Rightarrow> world \<Rightarrow> world" where
  "Println s w = emit (Print (s @ nl)) w"

text \<open>Everything written to standard output so far.\<close>

fun printed :: "event \<Rightarrow> string" where
  "printed (Print s) = s"
| "printed _ = []"

definition stdout :: "event list \<Rightarrow> string" where
  "stdout es = concat (map printed es)"

subsection \<open>The runtime\<close>

text \<open>
  \<^verbatim>\<open>runtime.GC()\<close> and \<^verbatim>\<open>runtime.ReadMemStats(&m)\<close>. The counters the runtime reports are
  not determined by the program: the \<open>k\<close>-th call of \<^verbatim>\<open>ReadMemStats\<close> of an execution
  returns \<open>rt k\<close>, for a sequence \<open>rt\<close> that is a parameter of the model.
\<close>

definition runtime_GC :: "world \<Rightarrow> world" where
  "runtime_GC w = emit RuntimeGC w"

definition runtime_ReadMemStats :: "(nat \<Rightarrow> runtime_MemStats) \<Rightarrow> world \<Rightarrow> runtime_MemStats \<times> world" where
  "runtime_ReadMemStats rt w = (rt (mem_reads w), mem_reads_update Suc (emit RuntimeReadMemStats w))"

definition zero_MemStats :: runtime_MemStats where
  "zero_MemStats = \<lparr>Alloc = 0, TotalAlloc = 0, Sys = 0, Lookups = 0, Mallocs = 0, Frees = 0,
     HeapAlloc = 0, HeapSys = 0, HeapIdle = 0, HeapInuse = 0, HeapReleased = 0, HeapObjects = 0\<rparr>"

text \<open>Calling a function value: a nil function panics.\<close>

definition call_func :: "func \<Rightarrow> world \<Rightarrow> panic + world" where
  "call_func fn w = (case fn of None \<Rightarrow> Inl NilDereference | Some f \<Rightarrow> f w)"

subsection \<open>Cells, pointers and slices\<close>

text \<open>
  Creating a cell takes the next unused address. The runtime chooses the addresses; the
  model only needs that a new cell is at an address no earlier cell has.
\<close>

definition fresh :: "world \<Rightarrow> addr \<times> world" where
  "fresh w = (next_addr w, next_addr_update Suc (emit (Allocate (next_addr w)) w))"

definition new_int :: "goint \<Rightarrow> world \<Rightarrow> addr \<times> world" where
  "new_int v w = (let (a, w) = fresh w in (a, int_cells_update (\<lambda>m. m(a \<mapsto> v)) w))"

definition new_User :: "User \<Rightarrow> world \<Rightarrow> addr \<times> world" where
  "new_User v w = (let (a, w) = fresh w in (a, user_cells_update (\<lambda>m. m(a \<mapsto> v)) w))"

definition new_ptr :: "ptr \<Rightarrow> world \<Rightarrow> addr \<times> world" where
  "new_ptr v w = (let (a, w) = fresh w in (a, ptr_cells_update (\<lambda>m. m(a \<mapsto> v)) w))"

definition new_LargeObject :: "LargeObject \<Rightarrow> world \<Rightarrow> addr \<times> world" where
  "new_LargeObject v w = (let (a, w) = fresh w in (a, large_cells_update (\<lambda>m. m(a \<mapsto> v)) w))"

text \<open>A slice literal \<^verbatim>\<open>[]int{...}\<close> and \<^verbatim>\<open>make([]T, n)\<close>: a new backing array, zeroed by \<^verbatim>\<open>make\<close>.\<close>

definition ints_literal :: "goint list \<Rightarrow> world \<Rightarrow> slice \<times> world" where
  "ints_literal xs w =
     (let (a, w) = fresh w
      in (\<lparr>base = a, off = 0, slen = length xs, scap = length xs\<rparr>,
          int_arrays_update (\<lambda>m. m(a \<mapsto> xs)) w))"

definition make_ints :: "nat \<Rightarrow> world \<Rightarrow> slice \<times> world" where
  "make_ints n w =
     (let (a, w) = fresh w
      in (\<lparr>base = a, off = 0, slen = n, scap = n\<rparr>,
          int_arrays_update (\<lambda>m. m(a \<mapsto> replicate n 0)) w))"

definition make_bytes :: "nat \<Rightarrow> world \<Rightarrow> slice \<times> world" where
  "make_bytes n w =
     (let (a, w) = fresh w
      in (\<lparr>base = a, off = 0, slen = n, scap = n\<rparr>,
          byte_arrays_update (\<lambda>m. m(a \<mapsto> replicate n 0)) w))"

definition make_ptrs :: "nat \<Rightarrow> world \<Rightarrow> slice \<times> world" where
  "make_ptrs n w =
     (let (a, w) = fresh w
      in (\<lparr>base = a, off = 0, slen = n, scap = n\<rparr>,
          ptr_arrays_update (\<lambda>m. m(a \<mapsto> replicate n NilPtr)) w))"

text \<open>Dereferencing: a nil pointer panics.\<close>

definition load_int :: "ptr \<Rightarrow> world \<Rightarrow> panic + goint" where
  "load_int p w =
     (case p of NilPtr \<Rightarrow> Inl NilDereference
      | Ptr a \<Rightarrow> (case int_cells w a of None \<Rightarrow> Inl InvalidMemory | Some v \<Rightarrow> Inr v))"

definition load_User :: "ptr \<Rightarrow> world \<Rightarrow> panic + User" where
  "load_User p w =
     (case p of NilPtr \<Rightarrow> Inl NilDereference
      | Ptr a \<Rightarrow> (case user_cells w a of None \<Rightarrow> Inl InvalidMemory | Some v \<Rightarrow> Inr v))"

definition load_ptr :: "ptr \<Rightarrow> world \<Rightarrow> panic + ptr" where
  "load_ptr p w =
     (case p of NilPtr \<Rightarrow> Inl NilDereference
      | Ptr a \<Rightarrow> (case ptr_cells w a of None \<Rightarrow> Inl InvalidMemory | Some v \<Rightarrow> Inr v))"

text \<open>\<^verbatim>\<open>p.Age = v\<close> through a pointer \<^verbatim>\<open>p\<close> to a \<^verbatim>\<open>User\<close>.\<close>

definition store_Age :: "ptr \<Rightarrow> goint \<Rightarrow> world \<Rightarrow> panic + world" where
  "store_Age p v w =
     (case p of NilPtr \<Rightarrow> Inl NilDereference
      | Ptr a \<Rightarrow>
          (case user_cells w a of None \<Rightarrow> Inl InvalidMemory
           | Some u \<Rightarrow> Inr (user_cells_update (\<lambda>m. m(a \<mapsto> u\<lparr>Age := v\<rparr>))
                             (emit (FieldWrite a ''Age'' (Age u) v) w))))"

text \<open>\<^verbatim>\<open>len(s)\<close>, \<^verbatim>\<open>cap(s)\<close> and the slice expression \<^verbatim>\<open>s[lo:hi]\<close>, which panics unless
  \<open>0 \<le> lo \<le> hi \<le> cap(s)\<close>.\<close>

definition len :: "slice \<Rightarrow> goint" where
  "len s = of_nat (slen s)"

definition cap :: "slice \<Rightarrow> goint" where
  "cap s = of_nat (scap s)"

definition slice_expr :: "slice \<Rightarrow> goint \<Rightarrow> goint \<Rightarrow> panic + slice" where
  "slice_expr s lo hi =
     (if 0 \<le>s lo \<and> lo \<le>s hi \<and> sint hi \<le> int (scap s)
      then Inr \<lparr>base = base s, off = off s + nat (sint lo),
                slen = nat (sint hi) - nat (sint lo), scap = scap s - nat (sint lo)\<rparr>
      else Inl SliceBoundsOutOfRange)"

text \<open>\<^verbatim>\<open>s[i]\<close> and \<^verbatim>\<open>s[i] = v\<close>, which panic unless \<open>0 \<le> i < len(s)\<close>.\<close>

definition index_int :: "slice \<Rightarrow> goint \<Rightarrow> world \<Rightarrow> panic + goint" where
  "index_int s i w =
     (if 0 \<le>s i \<and> sint i < int (slen s)
      then (case int_arrays w (base s) of None \<Rightarrow> Inl InvalidMemory
            | Some xs \<Rightarrow>
                if off s + nat (sint i) < length xs then Inr (xs ! (off s + nat (sint i)))
                else Inl InvalidMemory)
      else Inl IndexOutOfRange)"

definition store_int_elem :: "slice \<Rightarrow> goint \<Rightarrow> goint \<Rightarrow> world \<Rightarrow> panic + world" where
  "store_int_elem s i v w =
     (if 0 \<le>s i \<and> sint i < int (slen s)
      then (case int_arrays w (base s) of None \<Rightarrow> Inl InvalidMemory
            | Some xs \<Rightarrow>
                if off s + nat (sint i) < length xs
                then Inr (int_arrays_update (\<lambda>m. m(base s \<mapsto> xs[off s + nat (sint i) := v]))
                            (emit (ElemWrite (base s) (off s + nat (sint i))) w))
                else Inl InvalidMemory)
      else Inl IndexOutOfRange)"

definition store_ptr_elem :: "slice \<Rightarrow> goint \<Rightarrow> ptr \<Rightarrow> world \<Rightarrow> panic + world" where
  "store_ptr_elem s i v w =
     (if 0 \<le>s i \<and> sint i < int (slen s)
      then (case ptr_arrays w (base s) of None \<Rightarrow> Inl InvalidMemory
            | Some xs \<Rightarrow>
                if off s + nat (sint i) < length xs
                then Inr (ptr_arrays_update (\<lambda>m. m(base s \<mapsto> xs[off s + nat (sint i) := v]))
                            (emit (ElemWrite (base s) (off s + nat (sint i))) w))
                else Inl InvalidMemory)
      else Inl IndexOutOfRange)"

text \<open>The elements a \<^verbatim>\<open>[]int\<close> shows, as \<^verbatim>\<open>%v\<close> reads them.\<close>

definition elems_int :: "slice \<Rightarrow> world \<Rightarrow> panic + goint list" where
  "elems_int s w =
     (case int_arrays w (base s) of None \<Rightarrow> Inl InvalidMemory
      | Some xs \<Rightarrow>
          if off s + slen s \<le> length xs then Inr (take (slen s) (drop (off s) xs))
          else Inl InvalidMemory)"

text \<open>\<^verbatim>\<open>%+v\<close> of a \<^verbatim>\<open>*User\<close>: \<^verbatim>\<open>&{...}\<close>, or \<^verbatim>\<open><nil>\<close>.\<close>

definition fmt_User_ptr :: "ptr \<Rightarrow> world \<Rightarrow> panic + string" where
  "fmt_User_ptr p w =
     (case p of NilPtr \<Rightarrow> Inr ''<nil>''
      | Ptr a \<Rightarrow> (case user_cells w a of None \<Rightarrow> Inl InvalidMemory
                  | Some u \<Rightarrow> Inr (''&'' @ fmt_User u)))"

section \<open>The playground: \<^verbatim>\<open>main.go\<close>\<close>

definition stackExample :: "world \<Rightarrow> panic + world" where
  "stackExample w0 =
     (let w = enter ''stackExample'' w0;
          x = (42 :: goint);
          w = Printf (''  Stack variable x = '' @ fmt_d_int x @ '' (allocated on stack)'' @ nl) w
      in Inr (leave ''stackExample'' w))"

definition createUser :: "world \<Rightarrow> panic + ptr \<times> world" where
  "createUser w0 =
     (let w = enter ''createUser'' w0;
          (u, w) = new_User \<lparr>Name = ''Alice'', Age = 30\<rparr> w
      in Inr (Ptr u, leave ''createUser'' w))"

definition heapExample :: "world \<Rightarrow> panic + world" where
  "heapExample w0 =
     (let w = enter ''heapExample'' w0
      in and_then (createUser w) (\<lambda>(user, w).
         and_then (fmt_User_ptr user w) (\<lambda>s.
         let w = Printf (''  Heap variable user = '' @ s
                         @ '' (allocated on heap, GC will clean up)'' @ nl) w
         in Inr (leave ''heapExample'' w))))"

text \<open>
  \<^verbatim>\<open>fmt.Printf("<label>%p (ptr at %p) -> %+v\n", v, &v, *v)\<close> for a local variable \<^verbatim>\<open>v\<close> of
  type \<^verbatim>\<open>*User\<close> that lives in the cell \<open>var\<close>.
\<close>

definition print_pointer :: "string \<Rightarrow> addr \<Rightarrow> world \<Rightarrow> panic + world" where
  "print_pointer label var w =
     and_then (load_ptr (Ptr var) w) (\<lambda>p.
     and_then (load_User p w) (\<lambda>u.
     Inr (Printf (label @ fmt_p p @ '' (ptr at '' @ fmt_p (Ptr var) @ '') -> '' @ fmt_User u @ nl) w)))"

definition pointerSharingExample :: "world \<Rightarrow> panic + world" where
  "pointerSharingExample w0 =
     (let w = enter ''pointerSharingExample'' w0;
          (a, w) = new_User \<lparr>Name = ''Bob'', Age = 25\<rparr> w;
          (user, w) = new_ptr (Ptr a) w
      in and_then (load_ptr (Ptr user) w) (\<lambda>v. let (ptr1, w) = new_ptr v w in
         and_then (load_ptr (Ptr user) w) (\<lambda>v. let (ptr2, w) = new_ptr v w in
         and_then (load_ptr (Ptr user) w) (\<lambda>v. let (ptr3, w) = new_ptr v w in
         and_then (print_pointer ''  Original: '' user w) (\<lambda>w.
         and_then (print_pointer ''  Ptr1:     '' ptr1 w) (\<lambda>w.
         and_then (print_pointer ''  Ptr2:     '' ptr2 w) (\<lambda>w.
         and_then (print_pointer ''  Ptr3:     '' ptr3 w) (\<lambda>w.
         let w = Println ''  All pointers share the same heap memory!'' w;
             w = Println ''  GC will clean up when all references are gone'' w
         in and_then (load_ptr (Ptr ptr1) w) (\<lambda>p.
            and_then (store_Age p 26 w) (\<lambda>w.
            and_then (load_ptr (Ptr user) w) (\<lambda>p.
            and_then (load_User p w) (\<lambda>u.
            let w = Printf (''  After modification via ptr1: '' @ fmt_User u @ nl) w
            in Inr (leave ''pointerSharingExample'' w)))))))))))))"

text \<open>
  \<^verbatim>\<open>sliceSharingExample\<close> up to and including the assignment \<^verbatim>\<open>slice1[1] = 99\<close>; it hands
  on the three slice headers, which are local variables of the function.
\<close>

definition sliceSharingExample_assign :: "world \<Rightarrow> panic + (slice \<times> slice \<times> slice) \<times> world" where
  "sliceSharingExample_assign w =
     (let (original, w) = ints_literal [1, 2, 3, 4, 5] w
      in and_then (slice_expr original 1 4) (\<lambda>slice1.
         and_then (slice_expr original 2 (len original)) (\<lambda>slice2.
         and_then (elems_int original w) (\<lambda>xs.
         let w = Printf (''  Original: '' @ fmt_ints xs @ '' (len='' @ fmt_d_int (len original)
                         @ '', cap='' @ fmt_d_int (cap original) @ '')'' @ nl) w
         in and_then (elems_int slice1 w) (\<lambda>xs.
         let w = Printf (''  Slice1:   '' @ fmt_ints xs @ '' (len='' @ fmt_d_int (len slice1)
                         @ '', cap='' @ fmt_d_int (cap slice1) @ '')'' @ nl) w
         in and_then (elems_int slice2 w) (\<lambda>xs.
         let w = Printf (''  Slice2:   '' @ fmt_ints xs @ '' (len='' @ fmt_d_int (len slice2)
                         @ '', cap='' @ fmt_d_int (cap slice2) @ '')'' @ nl) w
         in and_then (store_int_elem slice1 1 99 w) (\<lambda>w.
            Inr ((original, slice1, slice2), w))))))))"

definition sliceSharingExample :: "world \<Rightarrow> panic + world" where
  "sliceSharingExample w0 =
     (let w = enter ''sliceSharingExample'' w0
      in and_then (sliceSharingExample_assign w) (\<lambda>((original, slice1, slice2), w).
         let w = Println (nl @ ''  After modifying slice1[1] = 99:'') w
         in and_then (elems_int original w) (\<lambda>xs.
         let w = Printf (''  Original: '' @ fmt_ints xs @ '' (affected!)'' @ nl) w
         in and_then (elems_int slice1 w) (\<lambda>xs.
         let w = Printf (''  Slice1:   '' @ fmt_ints xs @ nl) w
         in and_then (elems_int slice2 w) (\<lambda>xs.
         let w = Printf (''  Slice2:   '' @ fmt_ints xs @ '' (also affected!)'' @ nl) w;
             w = Println ''  All slices share the same backing array on heap'' w
         in Inr (leave ''sliceSharingExample'' w))))))"


section \<open>Escape analysis: \<^verbatim>\<open>escape_analysis.go\<close>\<close>

definition noEscape :: "world \<Rightarrow> panic + world" where
  "noEscape w0 =
     (let w = enter ''noEscape'' w0;
          x = (42 :: goint)
      in Inr (leave ''noEscape'' w))"

definition escapesViaReturn :: "world \<Rightarrow> panic + ptr \<times> world" where
  "escapesViaReturn w0 =
     (let w = enter ''escapesViaReturn'' w0;
          (x, w) = new_int 42 w
      in Inr (Ptr x, leave ''escapesViaReturn'' w))"

definition escapesViaInterface :: "world \<Rightarrow> panic + world" where
  "escapesViaInterface w0 =
     (let w = enter ''escapesViaInterface'' w0;
          x = (42 :: goint);
          (boxed, w) = new_int x w;
          w = globalInterface_update (\<lambda>_. BoxedInt boxed) (emit (GlobalWrite ''globalInterface'') w)
      in Inr (leave ''escapesViaInterface'' w))"

definition escapesViaSizeTooLarge :: "world \<Rightarrow> panic + world" where
  "escapesViaSizeTooLarge w0 =
     (let w = enter ''escapesViaSizeTooLarge'' w0;
          (largeArray, w) = make_ints 1000000 w
      in Inr (leave ''escapesViaSizeTooLarge'' w))"

definition noEscapeLocalPointer :: "world \<Rightarrow> panic + world" where
  "noEscapeLocalPointer w0 =
     (let w = enter ''noEscapeLocalPointer'' w0;
          (x, w) = new_int 42 w;
          ptr = Ptr x
      in and_then (load_int ptr w) (\<lambda>v.
         Inr (leave ''noEscapeLocalPointer'' w)))"

definition escapesViaGlobal :: "world \<Rightarrow> panic + world" where
  "escapesViaGlobal w0 =
     (let w = enter ''escapesViaGlobal'' w0;
          (x, w) = new_int 42 w;
          w = globalPtr_update (\<lambda>_. Ptr x) (emit (GlobalWrite ''globalPtr'') w)
      in Inr (leave ''escapesViaGlobal'' w))"

text \<open>The function literal of \<^verbatim>\<open>escapesViaClosure\<close>, closed over the variable \<^verbatim>\<open>x\<close>.\<close>

definition escapesViaClosure_func1 :: "addr \<Rightarrow> world \<Rightarrow> panic + goint \<times> world" where
  "escapesViaClosure_func1 x w0 =
     (let w = enter ''escapesViaClosure.func1'' w0
      in and_then (load_int (Ptr x) w) (\<lambda>v.
         Inr (v, leave ''escapesViaClosure.func1'' w)))"

definition escapesViaClosure :: "world \<Rightarrow> panic + func_int \<times> world" where
  "escapesViaClosure w0 =
     (let w = enter ''escapesViaClosure'' w0;
          (x, w) = new_int 42 w;
          w = emit (MakeClosure ''escapesViaClosure.func1'') w
      in Inr (Some (escapesViaClosure_func1 x), leave ''escapesViaClosure'' w))"

definition call_func_int :: "func_int \<Rightarrow> world \<Rightarrow> panic + goint \<times> world" where
  "call_func_int fn w = (case fn of None \<Rightarrow> Inl NilDereference | Some f \<Rightarrow> f w)"

definition DemonstrateEscapeAnalysis :: "world \<Rightarrow> panic + world" where
  "DemonstrateEscapeAnalysis w0 =
     (let w = enter ''DemonstrateEscapeAnalysis'' w0
      in and_then (noEscape w) (\<lambda>w.
         and_then (escapesViaReturn w) (\<lambda>(ptr, w).
         and_then (load_int ptr w) (\<lambda>v.
         and_then (escapesViaInterface w) (\<lambda>w.
         and_then (escapesViaSizeTooLarge w) (\<lambda>w.
         and_then (noEscapeLocalPointer w) (\<lambda>w.
         and_then (escapesViaGlobal w) (\<lambda>w.
         and_then (escapesViaClosure w) (\<lambda>(fn, w).
         and_then (call_func_int fn w) (\<lambda>(v, w).
         Inr (leave ''DemonstrateEscapeAnalysis'' w)))))))))))"

section \<open>Memory tracking: \<^verbatim>\<open>memory_tracking.go\<close>\<close>

text \<open>\<^verbatim>\<open>TrackMemory(name string, fn func())\<close>\<close>

definition TrackMemory :: "(nat \<Rightarrow> runtime_MemStats) \<Rightarrow> string \<Rightarrow> func \<Rightarrow> world \<Rightarrow> panic + world" where
  "TrackMemory rt name fn w0 =
     (let w = enter ''TrackMemory'' w0;
          m = \<lparr>Before = zero_MemStats, After = zero_MemStats\<rparr>;
          w = runtime_GC w;
          (b, w) = runtime_ReadMemStats rt w;
          m = m\<lparr>Before := b\<rparr>
      in and_then (call_func fn w) (\<lambda>w.
           let (a, w) = runtime_ReadMemStats rt w;
               m = m\<lparr>After := a\<rparr>;
               allocDiff = TotalAlloc (After m) - TotalAlloc (Before m);
               heapAllocDiff = HeapAlloc (After m) - HeapAlloc (Before m);
               heapObjects = HeapObjects (After m) - HeapObjects (Before m);
               w = Printf (nl @ ''=== Memory Tracking: '' @ name @ '' ==='' @ nl) w;
               w = Printf (''  Total allocated:     '' @ fmt_d_uint64 allocDiff @ '' bytes'' @ nl) w;
               w = Printf (''  Heap allocated:      '' @ fmt_d_uint64 heapAllocDiff @ '' bytes'' @ nl) w;
               w = Printf (''  Heap objects added:  '' @ fmt_d_uint64 heapObjects @ nl) w;
               w = Printf (''  Mallocs:             '' @ fmt_d_uint64 (Mallocs (After m) - Mallocs (Before m)) @ nl) w
           in Inr (leave ''TrackMemory'' w)))"

definition stackOnlyAllocation :: "world \<Rightarrow> panic + world" where
  "stackOnlyAllocation w0 =
     (let w = enter ''stackOnlyAllocation'' w0;
          x = (42 :: goint);
          y = x + 10
      in Inr (leave ''stackOnlyAllocation'' w))"

definition createLargeObject :: "goint \<Rightarrow> world \<Rightarrow> panic + ptr \<times> world" where
  "createLargeObject id' w0 =
     (let w = enter ''createLargeObject'' w0;
          (data, w) = make_bytes 1024 w;
          (obj, w) = new_LargeObject \<lparr>ID = id', Data = data\<rparr> w
      in Inr (Ptr obj, leave ''createLargeObject'' w))"

text \<open>\<^verbatim>\<open>for i := 0; i < 10; i++ { objects[i] = createLargeObject(i) }\<close>, from a given \<open>i\<close>.\<close>

function heapAllocationViaPointer_loop :: "slice \<Rightarrow> goint \<Rightarrow> world \<Rightarrow> panic + world" where
  "heapAllocationViaPointer_loop objects i w =
     (if i <s 10
      then and_then (createLargeObject i w) (\<lambda>(p, w).
           and_then (store_ptr_elem objects i p w) (\<lambda>w.
           heapAllocationViaPointer_loop objects (i + 1) w))
      else Inr w)"
  by pat_completeness auto
termination
proof (relation "measure (\<lambda>(objects, i, w). nat (10 - sint i))")
  show "wf (measure (\<lambda>(objects :: slice, i :: goint, w :: world). nat (10 - sint i)))"
    by simp
next
  fix objects :: slice and i :: goint and w :: world and x y :: world and xa :: "ptr \<times> world"
    and xb :: ptr
  assume lt: "i <s 10"
  have lo: "- (2 ^ 63) \<le> sint i"
    using sint_ge [of i] by simp
  have hi: "sint i < 10"
    using lt by (simp add: word_sless_alt)
  have "sint (i + 1) = signed_take_bit 63 (sint i + 1)"
    by (simp add: sint_word_add)
  also have "\<dots> = sint i + 1"
    using lo hi by (intro signed_take_bit_int_eq_self) simp_all
  finally show "((objects, i + 1, x), (objects, i, w)) \<in> measure (\<lambda>(objects, i, w). nat (10 - sint i))"
    using hi by simp
qed

declare heapAllocationViaPointer_loop.simps [simp del]

definition heapAllocationViaPointer :: "world \<Rightarrow> panic + world" where
  "heapAllocationViaPointer w0 =
     (let w = enter ''heapAllocationViaPointer'' w0;
          (objects, w) = make_ptrs 10 w
      in and_then (heapAllocationViaPointer_loop objects 0 w) (\<lambda>w.
         Inr (leave ''heapAllocationViaPointer'' w)))"

text \<open>\<^verbatim>\<open>type SmallStruct struct { A int; B int }\<close>, local to \<^verbatim>\<open>stackStructAllocation\<close>.\<close>

record SmallStruct =
  A :: goint
  B :: goint

text \<open>\<^verbatim>\<open>for i := 0; i < 100; i++ { s := SmallStruct{A: i, B: i * 2}; sum += s.A + s.B }\<close>\<close>

function stackStructAllocation_loop :: "goint \<Rightarrow> goint \<Rightarrow> goint" where
  "stackStructAllocation_loop i sumv =
     (if i <s 100
      then (let s = \<lparr>A = i, B = i * 2\<rparr>
            in stackStructAllocation_loop (i + 1) (sumv + (A s + B s)))
      else sumv)"
  by pat_completeness auto
termination
proof (relation "measure (\<lambda>(i, sumv). nat (100 - sint i))")
  show "wf (measure (\<lambda>(i :: goint, sumv :: goint). nat (100 - sint i)))"
    by simp
next
  fix i sumv :: goint and x :: SmallStruct
  assume lt: "i <s 100"
  have lo: "- (2 ^ 63) \<le> sint i"
    using sint_ge [of i] by simp
  have hi: "sint i < 100"
    using lt by (simp add: word_sless_alt)
  have "sint (i + 1) = signed_take_bit 63 (sint i + 1)"
    by (simp add: sint_word_add)
  also have "\<dots> = sint i + 1"
    using lo hi by (intro signed_take_bit_int_eq_self) simp_all
  finally show "((i + 1, sumv + (A x + B x)), (i, sumv)) \<in> measure (\<lambda>(i, sumv). nat (100 - sint i))"
    using hi by simp
qed

declare stackStructAllocation_loop.simps [simp del]

definition stackStructAllocation :: "world \<Rightarrow> panic + world" where
  "stackStructAllocation w0 =
     (let w = enter ''stackStructAllocation'' w0;
          sumv = stackStructAllocation_loop 0 0
      in Inr (leave ''stackStructAllocation'' w))"

definition largeAllocation :: "world \<Rightarrow> panic + world" where
  "largeAllocation w0 =
     (let w = enter ''largeAllocation'' w0;
          (discarded, w) = make_bytes (1024 * 1024) w
      in Inr (leave ''largeAllocation'' w))"

text \<open>A function literal \<^verbatim>\<open>func() { f() }\<close> of \<^verbatim>\<open>DemonstrateMemoryTracking\<close>.\<close>

definition func_lit :: "string \<Rightarrow> (world \<Rightarrow> panic + world) \<Rightarrow> world \<Rightarrow> panic + world" where
  "func_lit name f w0 =
     (let w = enter name w0
      in and_then (f w) (\<lambda>w. Inr (leave name w)))"

definition banner :: string where
  "banner = ''============================================================''"

definition DemonstrateMemoryTracking :: "(nat \<Rightarrow> runtime_MemStats) \<Rightarrow> world \<Rightarrow> panic + world" where
  "DemonstrateMemoryTracking rt w0 =
     (let w = enter ''DemonstrateMemoryTracking'' w0;
          w = Println (nl @ banner) w;
          w = Println ''MEMORY ALLOCATION TRACKING'' w;
          w = Println banner w;
          w = emit (MakeClosure ''DemonstrateMemoryTracking.func1'') w
      in and_then (TrackMemory rt ''Stack Only (should be minimal)''
                     (Some (func_lit ''DemonstrateMemoryTracking.func1'' stackOnlyAllocation)) w) (\<lambda>w.
         let w = emit (MakeClosure ''DemonstrateMemoryTracking.func2'') w
         in and_then (TrackMemory rt ''Small Structs on Stack''
                     (Some (func_lit ''DemonstrateMemoryTracking.func2'' stackStructAllocation)) w) (\<lambda>w.
         let w = emit (MakeClosure ''DemonstrateMemoryTracking.func3'') w
         in and_then (TrackMemory rt ''Heap Allocation (createLargeObject x10)''
                     (Some (func_lit ''DemonstrateMemoryTracking.func3'' heapAllocationViaPointer)) w) (\<lambda>w.
         let w = emit (MakeClosure ''DemonstrateMemoryTracking.func4'') w
         in and_then (TrackMemory rt ''Large Allocation (1MB slice)''
                     (Some (func_lit ''DemonstrateMemoryTracking.func4'' largeAllocation)) w) (\<lambda>w.
         let w = Println (nl @ banner) w
         in Inr (leave ''DemonstrateMemoryTracking'' w))))))"

section \<open>The entry point\<close>

definition main :: "(nat \<Rightarrow> runtime_MemStats) \<Rightarrow> world \<Rightarrow> panic + world" where
  "main rt w0 =
     (let w = enter ''main'' w0;
          w = Println ''=== Go Memory Model Playground ==='' w;
          w = Println [] w;
          w = Println ''1. Stack vs Heap Allocation'' w
      in and_then (stackExample w) (\<lambda>w.
         and_then (heapExample w) (\<lambda>w.
         let w = Println (nl @ ''2. Pointer Sharing (Multiple References)'') w
         in and_then (pointerSharingExample w) (\<lambda>w.
         let w = Println (nl @ ''3. Slice Sharing (Shared Backing Array)'') w
         in and_then (sliceSharingExample w) (\<lambda>w.
         and_then (DemonstrateEscapeAnalysis w) (\<lambda>w.
         and_then (DemonstrateMemoryTracking rt w) (\<lambda>w.
         Inr (leave ''main'' w))))))))"

text \<open>
  The world in which the program starts: nothing written, every cell free, the package-level
  variables at their zero values. The first free address \<open>n\<close> is the runtime's choice.
\<close>

definition start :: "addr \<Rightarrow> world" where
  "start n = \<lparr>trace = [], next_addr = n, int_cells = Map.empty, user_cells = Map.empty,
     ptr_cells = Map.empty, large_cells = Map.empty, int_arrays = Map.empty,
     byte_arrays = Map.empty, ptr_arrays = Map.empty, globalInterface = NilIface,
     globalPtr = NilPtr, mem_reads = 0\<rparr>"

text \<open>The exit status of the process: 0 when \<^verbatim>\<open>main\<close> returns, 2 when a panic ends it.\<close>

definition exit_code :: "panic + world \<Rightarrow> nat" where
  "exit_code r = (case r of Inl p \<Rightarrow> 2 | Inr w \<Rightarrow> 0)"


section \<open>Reading a trace\<close>

text \<open>The events of a finished run; a run that panicked shows none.\<close>

definition events :: "panic + world \<Rightarrow> event list" where
  "events r = (case r of Inl p \<Rightarrow> [] | Inr w \<Rightarrow> trace w)"

text \<open>A run of a function that returns a value, with the value dropped.\<close>

definition dropv :: "panic + 'a \<times> world \<Rightarrow> panic + world" where
  "dropv r = (case r of Inl p \<Rightarrow> Inl p | Inr vw \<Rightarrow> Inr (snd vw))"

text \<open>
  The events at call depth \<open>k\<close>, when the list starts at depth \<open>d\<close>: a call made at depth
  \<open>k\<close> shows as its \<open>Enter\<close> only. With \<open>k = 1\<close> and \<open>d = 0\<close> these are the actions of the
  body of the outermost function itself.
\<close>

fun at_depth :: "nat \<Rightarrow> nat \<Rightarrow> event list \<Rightarrow> event list" where
  "at_depth k d [] = []"
| "at_depth k d (Enter f # es) =
     (if d = k then Enter f # at_depth k (Suc d) es else at_depth k (Suc d) es)"
| "at_depth k d (Leave f # es) = at_depth k (d - 1) es"
| "at_depth k d (e # es) = (if d = k then e # at_depth k d es else at_depth k d es)"

definition own_actions :: "event list \<Rightarrow> event list" where
  "own_actions es = at_depth 1 0 es"

text \<open>Whether, in a list of actions, a call of \<open>f\<close> comes directly after a \<open>Print\<close>.\<close>

fun header_before :: "string \<Rightarrow> event list \<Rightarrow> bool" where
  "header_before f (Print s # Enter g # es) = (f = g \<or> header_before f (Enter g # es))"
| "header_before f (e # es) = header_before f es"
| "header_before f [] = False"

fun entered :: "event \<Rightarrow> string list" where
  "entered (Enter f) = [f]"
| "entered e = []"

fun allocated :: "event \<Rightarrow> addr list" where
  "allocated (Allocate a) = [a]"
| "allocated e = []"

fun field_written :: "event \<Rightarrow> (addr \<times> string \<times> goint \<times> goint) list" where
  "field_written (FieldWrite a f u v) = [(a, f, u, v)]"
| "field_written e = []"

fun elem_written :: "event \<Rightarrow> (addr \<times> nat) list" where
  "elem_written (ElemWrite a i) = [(a, i)]"
| "elem_written e = []"

fun global_written :: "event \<Rightarrow> string list" where
  "global_written (GlobalWrite g) = [g]"
| "global_written e = []"

fun closure_made :: "event \<Rightarrow> string list" where
  "closure_made (MakeClosure f) = [f]"
| "closure_made e = []"

text \<open>The functions entered, the cells created, the fields, slice elements and package-level
  variables assigned, and the function literals evaluated, each in the order of the trace.\<close>

definition calls :: "event list \<Rightarrow> string list" where
  "calls es = concat (map entered es)"

definition allocations :: "event list \<Rightarrow> addr list" where
  "allocations es = concat (map allocated es)"

definition field_writes :: "event list \<Rightarrow> (addr \<times> string \<times> goint \<times> goint) list" where
  "field_writes es = concat (map field_written es)"

definition elem_writes :: "event list \<Rightarrow> (addr \<times> nat) list" where
  "elem_writes es = concat (map elem_written es)"

definition global_writes :: "event list \<Rightarrow> string list" where
  "global_writes es = concat (map global_written es)"

definition closures :: "event list \<Rightarrow> string list" where
  "closures es = concat (map closure_made es)"

text \<open>
  The call stack along a trace: no function is entered while a call of it is still running
  (no recursion), every \<open>Leave\<close> closes the innermost call, and no call stays open.
\<close>

fun well_nested :: "string list \<Rightarrow> event list \<Rightarrow> bool" where
  "well_nested st [] = (st = [])"
| "well_nested st (Enter f # es) = (f \<notin> set st \<and> well_nested (f # st) es)"
| "well_nested st (Leave f # es) =
     (case st of [] \<Rightarrow> False | g # st' \<Rightarrow> g = f \<and> well_nested st' es)"
| "well_nested st (e # es) = well_nested st es"

text \<open>The world with other values in the two package-level variables.\<close>

definition set_globals :: "iface \<Rightarrow> ptr \<Rightarrow> world \<Rightarrow> world" where
  "set_globals gi gp w = w\<lparr>globalInterface := gi, globalPtr := gp\<rparr>"

text \<open>
  The result of a run with the two package-level variables of its final world set to \<open>gi\<close>
  and \<open>gp\<close>: the panic, the returned value and everything else in the world stay.
\<close>

definition with_globals :: "iface \<Rightarrow> ptr \<Rightarrow> panic + world \<Rightarrow> panic + world" where
  "with_globals gi gp r = (case r of Inl p \<Rightarrow> Inl p | Inr w \<Rightarrow> Inr (set_globals gi gp w))"

definition with_globals_v :: "iface \<Rightarrow> ptr \<Rightarrow> panic + 'a \<times> world \<Rightarrow> panic + 'a \<times> world" where
  "with_globals_v gi gp r =
     (case r of Inl p \<Rightarrow> Inl p | Inr vw \<Rightarrow> Inr (fst vw, set_globals gi gp (snd vw)))"

text \<open>Reading a decimal numeral back: the number a string of digits stands for.\<close>

definition digit_value :: "char \<Rightarrow> nat" where
  "digit_value c = of_char c - 48"

definition read_dec :: "string \<Rightarrow> nat" where
  "read_dec s = foldl (\<lambda>n c. 10 * n + digit_value c) 0 s"

text \<open>
  The report of \<^verbatim>\<open>TrackMemory\<close> as the specification words it: a header naming the demo and
  the four deltas After minus Before, of \<^verbatim>\<open>TotalAlloc\<close>, \<^verbatim>\<open>HeapAlloc\<close>, \<^verbatim>\<open>HeapObjects\<close> and
  \<^verbatim>\<open>Mallocs\<close>.
\<close>

definition delta_report :: "string \<Rightarrow> runtime_MemStats \<Rightarrow> runtime_MemStats \<Rightarrow> string list" where
  "delta_report name before after =
     [nl @ ''=== Memory Tracking: '' @ name @ '' ==='' @ nl,
      ''  Total allocated:     '' @ fmt_d_uint64 (TotalAlloc after - TotalAlloc before) @ '' bytes'' @ nl,
      ''  Heap allocated:      '' @ fmt_d_uint64 (HeapAlloc after - HeapAlloc before) @ '' bytes'' @ nl,
      ''  Heap objects added:  '' @ fmt_d_uint64 (HeapObjects after - HeapObjects before) @ nl,
      ''  Mallocs:             '' @ fmt_d_uint64 (Mallocs after - Mallocs before) @ nl]"

text \<open>The four counters \<^verbatim>\<open>TrackMemory\<close> may look at.\<close>

definition tracked :: "runtime_MemStats \<Rightarrow> uint64 \<times> uint64 \<times> uint64 \<times> uint64" where
  "tracked m = (TotalAlloc m, HeapAlloc m, HeapObjects m, Mallocs m)"

text \<open>A runtime whose counters never move, one whose heap shrinks during each tracked call,
  one whose four tracked counters grow from read to read, each by its own amount, and one
  that agrees with the last on the four and moves other counters as well.\<close>

definition idle_runtime :: "nat \<Rightarrow> runtime_MemStats" where
  "idle_runtime k = zero_MemStats"

definition shrinking_runtime :: "nat \<Rightarrow> runtime_MemStats" where
  "shrinking_runtime k =
     (if even k
      then zero_MemStats\<lparr>TotalAlloc := 4096, Mallocs := 8, HeapAlloc := 2048, HeapObjects := 7\<rparr>
      else zero_MemStats\<lparr>TotalAlloc := 5120, Mallocs := 9, HeapAlloc := 1024, HeapObjects := 5\<rparr>)"


definition growing_runtime :: "nat \<Rightarrow> runtime_MemStats" where
  "growing_runtime k =
     zero_MemStats\<lparr>TotalAlloc := 4096 + 1024 * of_nat k, Mallocs := 8 + 5 * of_nat k,
        HeapAlloc := 2048 + 512 * of_nat k, HeapObjects := 7 + 3 * of_nat k\<rparr>"

definition sweeping_runtime :: "nat \<Rightarrow> runtime_MemStats" where
  "sweeping_runtime k = (growing_runtime k)\<lparr>Frees := of_nat k, HeapIdle := 4096\<rparr>"

section \<open>Running the functions\<close>

lemma and_then_Inl [simp]: "and_then (Inl p) f = Inl p"
  by (simp add: and_then_def)

lemma and_then_Inr [simp]: "and_then (Inr x) f = f x"
  by (simp add: and_then_def)

lemma emit_eq: "emit e w = w\<lparr>trace := trace w @ [e]\<rparr>"
  by (simp add: emit_def)

lemmas prims = emit_def enter_def leave_def Printf_def Println_def fresh_def new_int_def new_User_def
  new_ptr_def new_LargeObject_def ints_literal_def make_ints_def make_bytes_def make_ptrs_def
  load_int_def load_User_def load_ptr_def store_Age_def Let_def len_def cap_def slice_expr_def
  index_int_def store_int_elem_def store_ptr_elem_def elems_int_def fmt_User_ptr_def
  runtime_GC_def runtime_ReadMemStats_def call_func_def call_func_int_def func_lit_def
  word_sle_eq word_sless_alt

lemma addr_plus:
  fixes a :: nat
  shows
  "a + 3 = Suc (Suc (Suc (a)))"
    and "a + 4 = Suc (Suc (Suc (Suc (a))))"
    and "a + 5 = Suc (Suc (Suc (Suc (Suc (a)))))"
    and "a + 6 = Suc (Suc (Suc (Suc (Suc (Suc (a))))))"
    and "a + 7 = Suc (Suc (Suc (Suc (Suc (Suc (Suc (a)))))))"
    and "a + 8 = Suc (Suc (Suc (Suc (Suc (Suc (Suc (Suc (a))))))))"
    and "a + 9 = Suc (Suc (Suc (Suc (Suc (Suc (Suc (Suc (Suc (a)))))))))"
    and "a + 10 = Suc (Suc (Suc (Suc (Suc (Suc (Suc (Suc (Suc (Suc (a))))))))))"
    and "a + 11 = Suc (Suc (Suc (Suc (Suc (Suc (Suc (Suc (Suc (Suc (Suc (a)))))))))))"
    and "a + 12 = Suc (Suc (Suc (Suc (Suc (Suc (Suc (Suc (Suc (Suc (Suc (Suc (a))))))))))))"
    and "a + 13 = Suc (Suc (Suc (Suc (Suc (Suc (Suc (Suc (Suc (Suc (Suc (Suc (Suc (a)))))))))))))"
    and "a + 14 = Suc (Suc (Suc (Suc (Suc (Suc (Suc (Suc (Suc (Suc (Suc (Suc (Suc (Suc (a))))))))))))))"
    and "a + 15 = Suc (Suc (Suc (Suc (Suc (Suc (Suc (Suc (Suc (Suc (Suc (Suc (Suc (Suc (Suc (a)))))))))))))))"
    and "a + 16 = Suc (Suc (Suc (Suc (Suc (Suc (Suc (Suc (Suc (Suc (Suc (Suc (Suc (Suc (Suc (Suc (a))))))))))))))))"
    and "a + 17 = Suc (Suc (Suc (Suc (Suc (Suc (Suc (Suc (Suc (Suc (Suc (Suc (Suc (Suc (Suc (Suc (Suc (a)))))))))))))))))"
    and "a + 18 = Suc (Suc (Suc (Suc (Suc (Suc (Suc (Suc (Suc (Suc (Suc (Suc (Suc (Suc (Suc (Suc (Suc (Suc (a))))))))))))))))))"
    and "a + 19 = Suc (Suc (Suc (Suc (Suc (Suc (Suc (Suc (Suc (Suc (Suc (Suc (Suc (Suc (Suc (Suc (Suc (Suc (Suc (a)))))))))))))))))))"
    and "a + 20 = Suc (Suc (Suc (Suc (Suc (Suc (Suc (Suc (Suc (Suc (Suc (Suc (Suc (Suc (Suc (Suc (Suc (Suc (Suc (Suc (a))))))))))))))))))))"
    and "a + 21 = Suc (Suc (Suc (Suc (Suc (Suc (Suc (Suc (Suc (Suc (Suc (Suc (Suc (Suc (Suc (Suc (Suc (Suc (Suc (Suc (Suc (a)))))))))))))))))))))"
    and "a + 22 = Suc (Suc (Suc (Suc (Suc (Suc (Suc (Suc (Suc (Suc (Suc (Suc (Suc (Suc (Suc (Suc (Suc (Suc (Suc (Suc (Suc (Suc (a))))))))))))))))))))))"
    and "a + 23 = Suc (Suc (Suc (Suc (Suc (Suc (Suc (Suc (Suc (Suc (Suc (Suc (Suc (Suc (Suc (Suc (Suc (Suc (Suc (Suc (Suc (Suc (Suc (a)))))))))))))))))))))))"
    and "a + 24 = Suc (Suc (Suc (Suc (Suc (Suc (Suc (Suc (Suc (Suc (Suc (Suc (Suc (Suc (Suc (Suc (Suc (Suc (Suc (Suc (Suc (Suc (Suc (Suc (a))))))))))))))))))))))))"
    and "a + 25 = Suc (Suc (Suc (Suc (Suc (Suc (Suc (Suc (Suc (Suc (Suc (Suc (Suc (Suc (Suc (Suc (Suc (Suc (Suc (Suc (Suc (Suc (Suc (Suc (Suc (a)))))))))))))))))))))))))"
    and "a + 26 = Suc (Suc (Suc (Suc (Suc (Suc (Suc (Suc (Suc (Suc (Suc (Suc (Suc (Suc (Suc (Suc (Suc (Suc (Suc (Suc (Suc (Suc (Suc (Suc (Suc (Suc (a))))))))))))))))))))))))))"
    and "a + 27 = Suc (Suc (Suc (Suc (Suc (Suc (Suc (Suc (Suc (Suc (Suc (Suc (Suc (Suc (Suc (Suc (Suc (Suc (Suc (Suc (Suc (Suc (Suc (Suc (Suc (Suc (Suc (a)))))))))))))))))))))))))))"
    and "a + 28 = Suc (Suc (Suc (Suc (Suc (Suc (Suc (Suc (Suc (Suc (Suc (Suc (Suc (Suc (Suc (Suc (Suc (Suc (Suc (Suc (Suc (Suc (Suc (Suc (Suc (Suc (Suc (Suc (a))))))))))))))))))))))))))))"
    and "a + 29 = Suc (Suc (Suc (Suc (Suc (Suc (Suc (Suc (Suc (Suc (Suc (Suc (Suc (Suc (Suc (Suc (Suc (Suc (Suc (Suc (Suc (Suc (Suc (Suc (Suc (Suc (Suc (Suc (Suc (a)))))))))))))))))))))))))))))"
    and "a + 30 = Suc (Suc (Suc (Suc (Suc (Suc (Suc (Suc (Suc (Suc (Suc (Suc (Suc (Suc (Suc (Suc (Suc (Suc (Suc (Suc (Suc (Suc (Suc (Suc (Suc (Suc (Suc (Suc (Suc (Suc (a))))))))))))))))))))))))))))))"
    and "a + 31 = Suc (Suc (Suc (Suc (Suc (Suc (Suc (Suc (Suc (Suc (Suc (Suc (Suc (Suc (Suc (Suc (Suc (Suc (Suc (Suc (Suc (Suc (Suc (Suc (Suc (Suc (Suc (Suc (Suc (Suc (Suc (a)))))))))))))))))))))))))))))))"
    and "a + 32 = Suc (Suc (Suc (Suc (Suc (Suc (Suc (Suc (Suc (Suc (Suc (Suc (Suc (Suc (Suc (Suc (Suc (Suc (Suc (Suc (Suc (Suc (Suc (Suc (Suc (Suc (Suc (Suc (Suc (Suc (Suc (Suc (a))))))))))))))))))))))))))))))))"
    and "a + 33 = Suc (Suc (Suc (Suc (Suc (Suc (Suc (Suc (Suc (Suc (Suc (Suc (Suc (Suc (Suc (Suc (Suc (Suc (Suc (Suc (Suc (Suc (Suc (Suc (Suc (Suc (Suc (Suc (Suc (Suc (Suc (Suc (Suc (a)))))))))))))))))))))))))))))))))"
    and "a + 34 = Suc (Suc (Suc (Suc (Suc (Suc (Suc (Suc (Suc (Suc (Suc (Suc (Suc (Suc (Suc (Suc (Suc (Suc (Suc (Suc (Suc (Suc (Suc (Suc (Suc (Suc (Suc (Suc (Suc (Suc (Suc (Suc (Suc (Suc (a))))))))))))))))))))))))))))))))))"
    and "a + 35 = Suc (Suc (Suc (Suc (Suc (Suc (Suc (Suc (Suc (Suc (Suc (Suc (Suc (Suc (Suc (Suc (Suc (Suc (Suc (Suc (Suc (Suc (Suc (Suc (Suc (Suc (Suc (Suc (Suc (Suc (Suc (Suc (Suc (Suc (Suc (a)))))))))))))))))))))))))))))))))))"
  by simp_all

lemma upt_10: "[0..<10] = [0, 1, 2, 3, 4, 5, 6, 7, 8, 9]"
  by (simp add: upt_rec)

lemma fmt_d_int_small [simp]:
  "fmt_d_int 1 = ''1''" "fmt_d_int 2 = ''2''" "fmt_d_int 3 = ''3''" "fmt_d_int 4 = ''4''"
  "fmt_d_int 5 = ''5''" "fmt_d_int 25 = ''25''" "fmt_d_int 26 = ''26''" "fmt_d_int 30 = ''30''"
  "fmt_d_int 42 = ''42''" "fmt_d_int 99 = ''99''"
  by (simp_all add: fmt_d_int_def dec.simps digit_def)

subsection \<open>\<^verbatim>\<open>main.go\<close>\<close>

lemma stackExample_run:
  "stackExample w = Inr (w\<lparr>trace := trace w @
     [Enter ''stackExample'',
      Print (''  Stack variable x = 42 (allocated on stack)'' @ nl),
      Leave ''stackExample'']\<rparr>)"
  by (simp add: stackExample_def prims)

lemma createUser_run:
  "createUser w = Inr (Ptr (next_addr w), w\<lparr>trace := trace w @
     [Enter ''createUser'', Allocate (next_addr w), Leave ''createUser''],
     next_addr := next_addr w + 1,
     user_cells := (user_cells w)(next_addr w \<mapsto> \<lparr>Name = ''Alice'', Age = 30\<rparr>)\<rparr>)"
  by (simp add: createUser_def prims)

lemma heapExample_run:
  "heapExample w = Inr (w\<lparr>trace := trace w @
     [Enter ''heapExample'', Enter ''createUser'', Allocate (next_addr w), Leave ''createUser'',
      Print (''  Heap variable user = &{Name:Alice Age:30} (allocated on heap, GC will clean up)'' @ nl),
      Leave ''heapExample''],
     next_addr := next_addr w + 1,
     user_cells := (user_cells w)(next_addr w \<mapsto> \<lparr>Name = ''Alice'', Age = 30\<rparr>)\<rparr>)"
  by (simp add: heapExample_def createUser_def fmt_User_def prims)

lemma pointerSharingExample_run:
  "pointerSharingExample w = Inr (w\<lparr>trace := trace w @
     [Enter ''pointerSharingExample'',
      Allocate (next_addr w), Allocate (next_addr w + 1), Allocate (next_addr w + 2),
      Allocate (next_addr w + 3), Allocate (next_addr w + 4),
      Print (''  Original: '' @ fmt_p (Ptr (next_addr w)) @ '' (ptr at ''
             @ fmt_p (Ptr (next_addr w + 1)) @ '') -> {Name:Bob Age:25}'' @ nl),
      Print (''  Ptr1:     '' @ fmt_p (Ptr (next_addr w)) @ '' (ptr at ''
             @ fmt_p (Ptr (next_addr w + 2)) @ '') -> {Name:Bob Age:25}'' @ nl),
      Print (''  Ptr2:     '' @ fmt_p (Ptr (next_addr w)) @ '' (ptr at ''
             @ fmt_p (Ptr (next_addr w + 3)) @ '') -> {Name:Bob Age:25}'' @ nl),
      Print (''  Ptr3:     '' @ fmt_p (Ptr (next_addr w)) @ '' (ptr at ''
             @ fmt_p (Ptr (next_addr w + 4)) @ '') -> {Name:Bob Age:25}'' @ nl),
      Print (''  All pointers share the same heap memory!'' @ nl),
      Print (''  GC will clean up when all references are gone'' @ nl),
      FieldWrite (next_addr w) ''Age'' 25 26,
      Print (''  After modification via ptr1: {Name:Bob Age:26}'' @ nl),
      Leave ''pointerSharingExample''],
     next_addr := next_addr w + 5,
     user_cells := (user_cells w)(next_addr w \<mapsto> \<lparr>Name = ''Bob'', Age = 26\<rparr>),
     ptr_cells := (ptr_cells w)(next_addr w + 1 \<mapsto> Ptr (next_addr w),
        next_addr w + 2 \<mapsto> Ptr (next_addr w), next_addr w + 3 \<mapsto> Ptr (next_addr w),
        next_addr w + 4 \<mapsto> Ptr (next_addr w))\<rparr>)"
  by (simp add: pointerSharingExample_def print_pointer_def fmt_User_def prims addr_plus)

lemma sliceSharingExample_assign_run:
  "sliceSharingExample_assign w =
     Inr ((\<lparr>base = next_addr w, off = 0, slen = 5, scap = 5\<rparr>,
           \<lparr>base = next_addr w, off = 1, slen = 3, scap = 4\<rparr>,
           \<lparr>base = next_addr w, off = 2, slen = 3, scap = 3\<rparr>),
          w\<lparr>trace := trace w @
             [Allocate (next_addr w),
              Print (''  Original: [1 2 3 4 5] (len=5, cap=5)'' @ nl),
              Print (''  Slice1:   [2 3 4] (len=3, cap=4)'' @ nl),
              Print (''  Slice2:   [3 4 5] (len=3, cap=3)'' @ nl),
              ElemWrite (next_addr w) 2],
            next_addr := next_addr w + 1,
            int_arrays := (int_arrays w)(next_addr w \<mapsto> [1, 2, 99, 4, 5])\<rparr>)"
  by (simp add: sliceSharingExample_assign_def fmt_ints_def prims)

lemma sliceSharingExample_run:
  "sliceSharingExample w = Inr (w\<lparr>trace := trace w @
     [Enter ''sliceSharingExample'',
      Allocate (next_addr w),
      Print (''  Original: [1 2 3 4 5] (len=5, cap=5)'' @ nl),
      Print (''  Slice1:   [2 3 4] (len=3, cap=4)'' @ nl),
      Print (''  Slice2:   [3 4 5] (len=3, cap=3)'' @ nl),
      ElemWrite (next_addr w) 2,
      Print (nl @ ''  After modifying slice1[1] = 99:'' @ nl),
      Print (''  Original: [1 2 99 4 5] (affected!)'' @ nl),
      Print (''  Slice1:   [2 99 4]'' @ nl),
      Print (''  Slice2:   [99 4 5] (also affected!)'' @ nl),
      Print (''  All slices share the same backing array on heap'' @ nl),
      Leave ''sliceSharingExample''],
     next_addr := next_addr w + 1,
     int_arrays := (int_arrays w)(next_addr w \<mapsto> [1, 2, 99, 4, 5])\<rparr>)"
  by (simp add: sliceSharingExample_def sliceSharingExample_assign_run fmt_ints_def
        Println_def Printf_def emit_def enter_def leave_def elems_int_def Let_def)

subsection \<open>\<^verbatim>\<open>escape_analysis.go\<close>\<close>

lemma noEscape_run:
  "noEscape w = Inr (w\<lparr>trace := trace w @ [Enter ''noEscape'', Leave ''noEscape'']\<rparr>)"
  by (simp add: noEscape_def prims)

lemma escapesViaReturn_run:
  "escapesViaReturn w = Inr (Ptr (next_addr w), w\<lparr>trace := trace w @
     [Enter ''escapesViaReturn'', Allocate (next_addr w), Leave ''escapesViaReturn''],
     next_addr := next_addr w + 1,
     int_cells := (int_cells w)(next_addr w \<mapsto> 42)\<rparr>)"
  by (simp add: escapesViaReturn_def prims)

lemma escapesViaInterface_run:
  "escapesViaInterface w = Inr (w\<lparr>trace := trace w @
     [Enter ''escapesViaInterface'', Allocate (next_addr w), GlobalWrite ''globalInterface'',
      Leave ''escapesViaInterface''],
     next_addr := next_addr w + 1,
     int_cells := (int_cells w)(next_addr w \<mapsto> 42),
     globalInterface := BoxedInt (next_addr w)\<rparr>)"
  by (simp add: escapesViaInterface_def prims)

lemma escapesViaSizeTooLarge_run:
  "escapesViaSizeTooLarge w = Inr (w\<lparr>trace := trace w @
     [Enter ''escapesViaSizeTooLarge'', Allocate (next_addr w), Leave ''escapesViaSizeTooLarge''],
     next_addr := next_addr w + 1,
     int_arrays := (int_arrays w)(next_addr w \<mapsto> replicate 1000000 0)\<rparr>)"
  by (simp add: escapesViaSizeTooLarge_def prims)

lemma noEscapeLocalPointer_run:
  "noEscapeLocalPointer w = Inr (w\<lparr>trace := trace w @
     [Enter ''noEscapeLocalPointer'', Allocate (next_addr w), Leave ''noEscapeLocalPointer''],
     next_addr := next_addr w + 1,
     int_cells := (int_cells w)(next_addr w \<mapsto> 42)\<rparr>)"
  by (simp add: noEscapeLocalPointer_def prims)

lemma escapesViaGlobal_run:
  "escapesViaGlobal w = Inr (w\<lparr>trace := trace w @
     [Enter ''escapesViaGlobal'', Allocate (next_addr w), GlobalWrite ''globalPtr'',
      Leave ''escapesViaGlobal''],
     next_addr := next_addr w + 1,
     int_cells := (int_cells w)(next_addr w \<mapsto> 42),
     globalPtr := Ptr (next_addr w)\<rparr>)"
  by (simp add: escapesViaGlobal_def prims)

lemma escapesViaClosure_run:
  "escapesViaClosure w = Inr (Some (escapesViaClosure_func1 (next_addr w)), w\<lparr>trace := trace w @
     [Enter ''escapesViaClosure'', Allocate (next_addr w),
      MakeClosure ''escapesViaClosure.func1'', Leave ''escapesViaClosure''],
     next_addr := next_addr w + 1,
     int_cells := (int_cells w)(next_addr w \<mapsto> 42)\<rparr>)"
  by (simp add: escapesViaClosure_def prims)

lemma escapesViaClosure_func1_run:
  "int_cells w x = Some v \<Longrightarrow>
   escapesViaClosure_func1 x w = Inr (v, w\<lparr>trace := trace w @
     [Enter ''escapesViaClosure.func1'', Leave ''escapesViaClosure.func1'']\<rparr>)"
  by (simp add: escapesViaClosure_func1_def prims)

lemmas escape_runs = noEscape_run escapesViaReturn_run escapesViaInterface_run
  escapesViaSizeTooLarge_run noEscapeLocalPointer_run escapesViaGlobal_run escapesViaClosure_run
  escapesViaClosure_func1_run

lemma DemonstrateEscapeAnalysis_run:
  "DemonstrateEscapeAnalysis w = Inr (w\<lparr>trace := trace w @
     [Enter ''DemonstrateEscapeAnalysis'',
      Enter ''noEscape'', Leave ''noEscape'',
      Enter ''escapesViaReturn'', Allocate (next_addr w), Leave ''escapesViaReturn'',
      Enter ''escapesViaInterface'', Allocate (next_addr w + 1), GlobalWrite ''globalInterface'',
      Leave ''escapesViaInterface'',
      Enter ''escapesViaSizeTooLarge'', Allocate (next_addr w + 2), Leave ''escapesViaSizeTooLarge'',
      Enter ''noEscapeLocalPointer'', Allocate (next_addr w + 3), Leave ''noEscapeLocalPointer'',
      Enter ''escapesViaGlobal'', Allocate (next_addr w + 4), GlobalWrite ''globalPtr'',
      Leave ''escapesViaGlobal'',
      Enter ''escapesViaClosure'', Allocate (next_addr w + 5),
      MakeClosure ''escapesViaClosure.func1'', Leave ''escapesViaClosure'',
      Enter ''escapesViaClosure.func1'', Leave ''escapesViaClosure.func1'',
      Leave ''DemonstrateEscapeAnalysis''],
     next_addr := next_addr w + 6,
     int_cells := (int_cells w)(next_addr w \<mapsto> 42, next_addr w + 1 \<mapsto> 42,
        next_addr w + 3 \<mapsto> 42, next_addr w + 4 \<mapsto> 42, next_addr w + 5 \<mapsto> 42),
     int_arrays := (int_arrays w)(next_addr w + 2 \<mapsto> replicate 1000000 0),
     globalInterface := BoxedInt (next_addr w + 1),
     globalPtr := Ptr (next_addr w + 4)\<rparr>)"
  by (simp add: DemonstrateEscapeAnalysis_def escape_runs enter_def leave_def emit_def
        load_int_def call_func_int_def Let_def addr_plus)

subsection \<open>Memory tracking\<close>

lemma TrackMemory_eq:
  "TrackMemory rt name (Some fn) w =
     and_then (fn (w\<lparr>trace := trace w @ [Enter ''TrackMemory'', RuntimeGC, RuntimeReadMemStats],
                     mem_reads := Suc (mem_reads w)\<rparr>))
       (\<lambda>w2. Inr (w2\<lparr>trace := trace w2 @
                 RuntimeReadMemStats #
                 map Print (delta_report name (rt (mem_reads w)) (rt (mem_reads w2))) @
                 [Leave ''TrackMemory''],
               mem_reads := Suc (mem_reads w2)\<rparr>))"
proof -
  have pre: "mem_reads_update Suc (emit RuntimeReadMemStats (runtime_GC (enter ''TrackMemory'' w)))
     = w\<lparr>trace := trace w @ [Enter ''TrackMemory'', RuntimeGC, RuntimeReadMemStats],
          mem_reads := Suc (mem_reads w)\<rparr>"
    by (simp add: prims)
  have before: "mem_reads (runtime_GC (enter ''TrackMemory'' w)) = mem_reads w"
    by (simp add: prims)
  show ?thesis
  proof (cases "fn (w\<lparr>trace := trace w @ [Enter ''TrackMemory'', RuntimeGC, RuntimeReadMemStats],
                       mem_reads := Suc (mem_reads w)\<rparr>)")
    case (Inl p)
    then show ?thesis
      unfolding TrackMemory_def runtime_ReadMemStats_def Let_def prod.case call_func_def
        option.case pre before
      by simp
  next
    case (Inr w2)
    then show ?thesis
      unfolding TrackMemory_def runtime_ReadMemStats_def Let_def prod.case call_func_def
        option.case pre before
      by (simp add: prims delta_report_def)
  qed
qed

lemma func_lit_eq:
  "func_lit name f w =
     and_then (f (w\<lparr>trace := trace w @ [Enter name]\<rparr>))
       (\<lambda>w'. Inr (w'\<lparr>trace := trace w' @ [Leave name]\<rparr>))"
  by (simp add: func_lit_def enter_def leave_def emit_eq Let_def)

lemma stackOnlyAllocation_run:
  "stackOnlyAllocation w = Inr (w\<lparr>trace := trace w @
     [Enter ''stackOnlyAllocation'', Leave ''stackOnlyAllocation'']\<rparr>)"
  by (simp add: stackOnlyAllocation_def prims)

lemma stackStructAllocation_run:
  "stackStructAllocation w = Inr (w\<lparr>trace := trace w @
     [Enter ''stackStructAllocation'', Leave ''stackStructAllocation'']\<rparr>)"
  by (simp add: stackStructAllocation_def prims)

lemma largeAllocation_run:
  "largeAllocation w = Inr (w\<lparr>trace := trace w @
     [Enter ''largeAllocation'', Allocate (next_addr w), Leave ''largeAllocation''],
     next_addr := next_addr w + 1,
     byte_arrays := (byte_arrays w)(next_addr w \<mapsto> replicate (1024 * 1024) 0)\<rparr>)"
  by (simp add: largeAllocation_def prims)

lemma createLargeObject_run:
  "createLargeObject i w = Inr (Ptr (next_addr w + 1), w\<lparr>trace := trace w @
     [Enter ''createLargeObject'', Allocate (next_addr w), Allocate (next_addr w + 1),
      Leave ''createLargeObject''],
     next_addr := next_addr w + 2,
     byte_arrays := (byte_arrays w)(next_addr w \<mapsto> replicate 1024 0),
     large_cells := (large_cells w)(next_addr w + 1 \<mapsto>
        \<lparr>ID = i, Data = \<lparr>base = next_addr w, off = 0, slen = 1024, scap = 1024\<rparr>\<rparr>)\<rparr>)"
  by (simp add: createLargeObject_def prims)

lemma replicate_10: "replicate 10 x = [x, x, x, x, x, x, x, x, x, x]"
  by (simp add: numeral_eq_Suc)

lemma heapAllocationViaPointer_run:
  "heapAllocationViaPointer w = Inr (w\<lparr>trace := trace w @
       Enter ''heapAllocationViaPointer'' # Allocate (next_addr w) #
       concat (map (\<lambda>i. [Enter ''createLargeObject'', Allocate (next_addr w + 2 * i + 1),
                          Allocate (next_addr w + 2 * i + 2), Leave ''createLargeObject'',
                          ElemWrite (next_addr w) i]) [0..<10])
       @ [Leave ''heapAllocationViaPointer''],
     next_addr := next_addr w + 21,
     byte_arrays := fold (\<lambda>i m. m(next_addr w + 2 * i + 1 \<mapsto> replicate 1024 0)) [0..<10]
                      (byte_arrays w),
     large_cells := fold (\<lambda>i m. m(next_addr w + 2 * i + 2 \<mapsto>
                        \<lparr>ID = of_nat i, Data = \<lparr>base = next_addr w + 2 * i + 1, off = 0,
                                                slen = 1024, scap = 1024\<rparr>\<rparr>)) [0..<10]
                      (large_cells w),
     ptr_arrays := (ptr_arrays w)(next_addr w \<mapsto> map (\<lambda>i. Ptr (next_addr w + 2 * i + 2)) [0..<10])\<rparr>)"
  by (simp add: heapAllocationViaPointer_def heapAllocationViaPointer_loop.simps
        createLargeObject_run make_ptrs_def fresh_def store_ptr_elem_def enter_def leave_def
        emit_def Let_def word_sle_eq word_sless_alt addr_plus upt_10 replicate_10)

subsection \<open>The report of \<^verbatim>\<open>TrackMemory\<close>\<close>

lemma digit_in: "k < 10 \<Longrightarrow> digit k \<in> set ''0123456789''"
  unfolding digit_def by (rule nth_mem) simp

lemma dec_digits: "set (dec n) \<subseteq> set ''0123456789''"
proof (induction n rule: dec.induct)
  case (1 n)
  show ?case
  proof (cases "n < 10")
    case True
    then show ?thesis
      using digit_in [of n] by (subst dec.simps) simp
  next
    case False
    have "digit (n mod 10) \<in> set ''0123456789''"
      by (rule digit_in) simp
    with False "1.IH" show ?thesis
      by (subst dec.simps) simp
  qed
qed

lemma wrap_sub:
  fixes a b m :: nat
  assumes "a < m" and "b < m"
  shows "(m + a - b) mod m = (if b \<le> a then a - b else a + m - b)"
proof (cases "b \<le> a")
  case True
  then have "m + a - b = (a - b) + m"
    by simp
  then have "(m + a - b) mod m = (a - b) mod m"
    by simp
  with True assms show ?thesis
    by simp
next
  case False
  with assms have "m + a - b < m"
    by simp
  then have "(m + a - b) mod m = m + a - b"
    by (rule mod_less)
  with False show ?thesis
    by (simp add: add.commute)
qed

lemma unat_delta:
  fixes x y :: uint64
  shows "unat (x - y) = (2 ^ 64 + unat x - unat y) mod 2 ^ 64"
proof -
  have bx: "unat x < 2 ^ 64" and bnd: "unat y < 2 ^ 64"
    using unsigned_less [of x, where ?'a = nat] unsigned_less [of y, where ?'a = nat] by simp_all
  have "unat (x - y) = (if unat y \<le> unat x then unat x - unat y else unat x + 2 ^ 64 - unat y)"
    by (simp add: unat_sub_if')
  also have "\<dots> = (2 ^ 64 + unat x - unat y) mod 2 ^ 64"
    by (rule wrap_sub [OF bx bnd, symmetric])
  finally show ?thesis .
qed

lemma delta_decrease:
  fixes x y :: uint64
  assumes "x < y"
  shows "(2 ^ 64 + unat x - unat y) mod 2 ^ 64 = 2 ^ 64 - (unat y - unat x) \<and>
         0 < (2 ^ 64 + unat x - unat y) mod (2 ^ 64 :: nat)"
proof -
  have lt: "unat x < unat y"
    using assms by (simp add: word_less_nat_alt)
  have bx: "unat x < 2 ^ 64" and bnd: "unat y < 2 ^ 64"
    using unsigned_less [of x, where ?'a = nat] unsigned_less [of y, where ?'a = nat] by simp_all
  have eq: "(2 ^ 64 + unat x - unat y) mod 2 ^ 64 = unat x + 2 ^ 64 - unat y"
    using lt by (simp only: wrap_sub [OF bx bnd]) simp
  have "unat x + 2 ^ 64 - unat y = 2 ^ 64 - (unat y - unat x)"
    using lt bnd by linarith
  moreover have "0 < unat x + 2 ^ 64 - unat y"
    using bnd by linarith
  ultimately show ?thesis
    by (simp only: eq)
qed

lemma delta_report_tracked:
  "tracked b = tracked b' \<Longrightarrow> tracked a = tracked a' \<Longrightarrow>
   delta_report name b a = delta_report name b' a'"
  by (simp add: tracked_def delta_report_def)

subsection \<open>The drivers\<close>

lemmas tracked_runs = stackOnlyAllocation_run stackStructAllocation_run largeAllocation_run
  heapAllocationViaPointer_run

lemma DemonstrateMemoryTracking_run:
  "DemonstrateMemoryTracking rt w = Inr (w\<lparr>trace := trace w @
       [Enter ''DemonstrateMemoryTracking'', Print (nl @ banner @ nl),
        Print (''MEMORY ALLOCATION TRACKING'' @ nl), Print (banner @ nl),
        MakeClosure ''DemonstrateMemoryTracking.func1'', Enter ''TrackMemory'', RuntimeGC,
        RuntimeReadMemStats, Enter ''DemonstrateMemoryTracking.func1'',
        Enter ''stackOnlyAllocation'', Leave ''stackOnlyAllocation'',
        Leave ''DemonstrateMemoryTracking.func1'', RuntimeReadMemStats] @
       map Print (delta_report ''Stack Only (should be minimal)'' (rt (mem_reads w)) (rt (mem_reads w + 1))) @
       [Leave ''TrackMemory'', MakeClosure ''DemonstrateMemoryTracking.func2'',
        Enter ''TrackMemory'', RuntimeGC, RuntimeReadMemStats,
        Enter ''DemonstrateMemoryTracking.func2'', Enter ''stackStructAllocation'',
        Leave ''stackStructAllocation'', Leave ''DemonstrateMemoryTracking.func2'',
        RuntimeReadMemStats] @
       map Print (delta_report ''Small Structs on Stack'' (rt (mem_reads w + 2)) (rt (mem_reads w + 3))) @
       [Leave ''TrackMemory'', MakeClosure ''DemonstrateMemoryTracking.func3'',
        Enter ''TrackMemory'', RuntimeGC, RuntimeReadMemStats,
        Enter ''DemonstrateMemoryTracking.func3'', Enter ''heapAllocationViaPointer'',
        Allocate (next_addr w)] @
       concat (map (\<lambda>i. [Enter ''createLargeObject'', Allocate (next_addr w + 2 * i + 1),
                          Allocate (next_addr w + 2 * i + 2), Leave ''createLargeObject'',
                          ElemWrite (next_addr w) i]) [0..<10]) @
       [Leave ''heapAllocationViaPointer'', Leave ''DemonstrateMemoryTracking.func3'',
        RuntimeReadMemStats] @
       map Print (delta_report ''Heap Allocation (createLargeObject x10)'' (rt (mem_reads w + 4)) (rt (mem_reads w + 5))) @
       [Leave ''TrackMemory'', MakeClosure ''DemonstrateMemoryTracking.func4'',
        Enter ''TrackMemory'', RuntimeGC, RuntimeReadMemStats,
        Enter ''DemonstrateMemoryTracking.func4'', Enter ''largeAllocation'',
        Allocate (next_addr w + 21), Leave ''largeAllocation'',
        Leave ''DemonstrateMemoryTracking.func4'', RuntimeReadMemStats] @
       map Print (delta_report ''Large Allocation (1MB slice)'' (rt (mem_reads w + 6)) (rt (mem_reads w + 7))) @
       [Leave ''TrackMemory'', Print (nl @ banner @ nl), Leave ''DemonstrateMemoryTracking''],
     next_addr := next_addr w + 22,
     byte_arrays := (fold (\<lambda>i m. m(next_addr w + 2 * i + 1 \<mapsto> replicate 1024 0)) [0..<10]
                       (byte_arrays w))(next_addr w + 21 \<mapsto> replicate (1024 * 1024) 0),
     large_cells := fold (\<lambda>i m. m(next_addr w + 2 * i + 2 \<mapsto>
                        \<lparr>ID = of_nat i, Data = \<lparr>base = next_addr w + 2 * i + 1, off = 0,
                                                slen = 1024, scap = 1024\<rparr>\<rparr>)) [0..<10]
                      (large_cells w),
     ptr_arrays := (ptr_arrays w)(next_addr w \<mapsto> map (\<lambda>i. Ptr (next_addr w + 2 * i + 2)) [0..<10]),
     mem_reads := mem_reads w + 8\<rparr>)"
  by (simp add: DemonstrateMemoryTracking_def TrackMemory_eq func_lit_eq tracked_runs
        Println_def enter_def leave_def emit_def Let_def addr_plus)

lemmas demo_runs = stackExample_run heapExample_run pointerSharingExample_run
  sliceSharingExample_run DemonstrateEscapeAnalysis_run DemonstrateMemoryTracking_run

lemma main_run:
  "\<exists>w'. main rt w = Inr w' \<and>
     trace w' = trace w @
         [Enter ''main'', Print (''=== Go Memory Model Playground ==='' @ nl), Print nl,
          Print (''1. Stack vs Heap Allocation'' @ nl), Enter ''stackExample'',
          Print (''  Stack variable x = 42 (allocated on stack)'' @ nl),
          Leave ''stackExample'', Enter ''heapExample'', Enter ''createUser'',
          Allocate (next_addr w), Leave ''createUser'',
          Print (''  Heap variable user = &{Name:Alice Age:30} (allocated on heap, GC will clean up)'' @ nl),
          Leave ''heapExample'',
          Print (nl @ ''2. Pointer Sharing (Multiple References)'' @ nl),
          Enter ''pointerSharingExample'', Allocate (next_addr w + 1),
          Allocate (next_addr w + 2), Allocate (next_addr w + 3), Allocate (next_addr w + 4),
          Allocate (next_addr w + 5),
          Print (''  Original: '' @ fmt_p (Ptr (next_addr w + 1)) @ '' (ptr at '' @ fmt_p (Ptr (next_addr w + 2)) @ '') -> {Name:Bob Age:25}'' @ nl),
          Print (''  Ptr1:     '' @ fmt_p (Ptr (next_addr w + 1)) @ '' (ptr at '' @ fmt_p (Ptr (next_addr w + 3)) @ '') -> {Name:Bob Age:25}'' @ nl),
          Print (''  Ptr2:     '' @ fmt_p (Ptr (next_addr w + 1)) @ '' (ptr at '' @ fmt_p (Ptr (next_addr w + 4)) @ '') -> {Name:Bob Age:25}'' @ nl),
          Print (''  Ptr3:     '' @ fmt_p (Ptr (next_addr w + 1)) @ '' (ptr at '' @ fmt_p (Ptr (next_addr w + 5)) @ '') -> {Name:Bob Age:25}'' @ nl),
          Print (''  All pointers share the same heap memory!'' @ nl),
          Print (''  GC will clean up when all references are gone'' @ nl),
          FieldWrite (next_addr w + 1) ''Age'' 25 26,
          Print (''  After modification via ptr1: {Name:Bob Age:26}'' @ nl),
          Leave ''pointerSharingExample'',
          Print (nl @ ''3. Slice Sharing (Shared Backing Array)'' @ nl),
          Enter ''sliceSharingExample'', Allocate (next_addr w + 6),
          Print (''  Original: [1 2 3 4 5] (len=5, cap=5)'' @ nl),
          Print (''  Slice1:   [2 3 4] (len=3, cap=4)'' @ nl),
          Print (''  Slice2:   [3 4 5] (len=3, cap=3)'' @ nl), ElemWrite (next_addr w + 6) 2,
          Print (nl @ ''  After modifying slice1[1] = 99:'' @ nl),
          Print (''  Original: [1 2 99 4 5] (affected!)'' @ nl),
          Print (''  Slice1:   [2 99 4]'' @ nl),
          Print (''  Slice2:   [99 4 5] (also affected!)'' @ nl),
          Print (''  All slices share the same backing array on heap'' @ nl),
          Leave ''sliceSharingExample'', Enter ''DemonstrateEscapeAnalysis'',
          Enter ''noEscape'', Leave ''noEscape'', Enter ''escapesViaReturn'',
          Allocate (next_addr w + 7), Leave ''escapesViaReturn'',
          Enter ''escapesViaInterface'', Allocate (next_addr w + 8),
          GlobalWrite ''globalInterface'', Leave ''escapesViaInterface'',
          Enter ''escapesViaSizeTooLarge'', Allocate (next_addr w + 9),
          Leave ''escapesViaSizeTooLarge'', Enter ''noEscapeLocalPointer'',
          Allocate (next_addr w + 10), Leave ''noEscapeLocalPointer'',
          Enter ''escapesViaGlobal'', Allocate (next_addr w + 11), GlobalWrite ''globalPtr'',
          Leave ''escapesViaGlobal'', Enter ''escapesViaClosure'',
          Allocate (next_addr w + 12), MakeClosure ''escapesViaClosure.func1'',
          Leave ''escapesViaClosure'', Enter ''escapesViaClosure.func1'',
          Leave ''escapesViaClosure.func1'', Leave ''DemonstrateEscapeAnalysis''] @
         [Enter ''DemonstrateMemoryTracking'', Print (nl @ banner @ nl),
          Print (''MEMORY ALLOCATION TRACKING'' @ nl), Print (banner @ nl),
          MakeClosure ''DemonstrateMemoryTracking.func1'', Enter ''TrackMemory'', RuntimeGC,
          RuntimeReadMemStats, Enter ''DemonstrateMemoryTracking.func1'',
          Enter ''stackOnlyAllocation'', Leave ''stackOnlyAllocation'',
          Leave ''DemonstrateMemoryTracking.func1'', RuntimeReadMemStats] @
         map Print (delta_report ''Stack Only (should be minimal)'' (rt (mem_reads w)) (rt (mem_reads w + 1))) @
         [Leave ''TrackMemory'', MakeClosure ''DemonstrateMemoryTracking.func2'',
          Enter ''TrackMemory'', RuntimeGC, RuntimeReadMemStats,
          Enter ''DemonstrateMemoryTracking.func2'', Enter ''stackStructAllocation'',
          Leave ''stackStructAllocation'', Leave ''DemonstrateMemoryTracking.func2'',
          RuntimeReadMemStats] @
         map Print (delta_report ''Small Structs on Stack'' (rt (mem_reads w + 2)) (rt (mem_reads w + 3))) @
         [Leave ''TrackMemory'', MakeClosure ''DemonstrateMemoryTracking.func3'',
          Enter ''TrackMemory'', RuntimeGC, RuntimeReadMemStats,
          Enter ''DemonstrateMemoryTracking.func3'', Enter ''heapAllocationViaPointer'',
          Allocate (next_addr w + 13)] @
         concat (map (\<lambda>i. [Enter ''createLargeObject'', Allocate (next_addr w + 13 + 2 * i + 1),
                            Allocate (next_addr w + 13 + 2 * i + 2), Leave ''createLargeObject'',
                            ElemWrite (next_addr w + 13) i]) [0..<10]) @
         [Leave ''heapAllocationViaPointer'', Leave ''DemonstrateMemoryTracking.func3'',
          RuntimeReadMemStats] @
         map Print (delta_report ''Heap Allocation (createLargeObject x10)'' (rt (mem_reads w + 4)) (rt (mem_reads w + 5))) @
         [Leave ''TrackMemory'', MakeClosure ''DemonstrateMemoryTracking.func4'',
          Enter ''TrackMemory'', RuntimeGC, RuntimeReadMemStats,
          Enter ''DemonstrateMemoryTracking.func4'', Enter ''largeAllocation'',
          Allocate (next_addr w + 34), Leave ''largeAllocation'',
          Leave ''DemonstrateMemoryTracking.func4'', RuntimeReadMemStats] @
         map Print (delta_report ''Large Allocation (1MB slice)'' (rt (mem_reads w + 6)) (rt (mem_reads w + 7))) @
         [Leave ''TrackMemory'', Print (nl @ banner @ nl),
          Leave ''DemonstrateMemoryTracking''] @
         [Leave ''main''] \<and>
     user_cells w' = (user_cells w)(next_addr w \<mapsto> \<lparr>Name = ''Alice'', Age = 30\<rparr>,
                        next_addr w + 1 \<mapsto> \<lparr>Name = ''Bob'', Age = 26\<rparr>) \<and>
     large_cells w' = fold (\<lambda>i m. m(next_addr w + 13 + 2 * i + 2 \<mapsto>
                        \<lparr>ID = of_nat i, Data = \<lparr>base = next_addr w + 13 + 2 * i + 1, off = 0,
                                                slen = 1024, scap = 1024\<rparr>\<rparr>)) [0..<10]
                      (large_cells w) \<and>
     globalInterface w' = BoxedInt (next_addr w + 8) \<and> globalPtr w' = Ptr (next_addr w + 11) \<and>
     next_addr w' = next_addr w + 35 \<and> mem_reads w' = mem_reads w + 8"
  by (simp add: main_def demo_runs Println_def enter_def leave_def emit_def Let_def addr_plus)

lemma start_simps [simp]:
  "trace (start n) = []" "next_addr (start n) = n" "mem_reads (start n) = 0"
  "user_cells (start n) = Map.empty" "large_cells (start n) = Map.empty"
  by (simp_all add: start_def)

lemma main_events:
  "\<exists>w'. main rt (start n) = Inr w' \<and> events (main rt (start n)) = trace w'"
  using main_run [of rt "start n"] by (auto simp: events_def)

lemmas trace_reading = own_actions_def calls_def allocations_def field_writes_def elem_writes_def
  global_writes_def closures_def stdout_def delta_report_def upt_10


subsection \<open>Concrete runtimes\<close>

lemma tracked_sweeping: "tracked (sweeping_runtime k) = tracked (growing_runtime k)"
  by (simp add: tracked_def sweeping_runtime_def)

subsection \<open>Reading the trace of a run\<close>

lemma events_Inr [simp]: "events (Inr w) = trace w"
  by (simp add: events_def)

lemma dropv_Inr [simp]: "dropv (Inr (v, w)) = Inr w"
  by (simp add: dropv_def)

lemma set_globals_simps [simp]:
  "trace (set_globals gi gp w) = trace w" "next_addr (set_globals gi gp w) = next_addr w"
  "mem_reads (set_globals gi gp w) = mem_reads w" "int_cells (set_globals gi gp w) = int_cells w"
  by (simp_all add: set_globals_def)

lemma allocations_append [simp]: "allocations (xs @ ys) = allocations xs @ allocations ys"
  by (simp add: allocations_def)

lemma allocations_Cons [simp]: "allocations (e # es) = allocated e @ allocations es"
  by (simp add: allocations_def)

lemma allocations_Nil [simp]: "allocations [] = []"
  by (simp add: allocations_def)

subsection \<open>The loop of \<^verbatim>\<open>stackStructAllocation\<close>\<close>

lemma sint_of_nat_small:
  assumes "k \<le> 100"
  shows "sint (of_nat k :: goint) = int k"
proof -
  have eq: "(of_nat k :: goint) = word_of_int (int k)"
    using word_of_int_nat [of "int k", where ?'a = 64] by simp
  have "sint (word_of_int (int k) :: goint) = signed_take_bit (LENGTH(64) - 1) (int k)"
    by (rule sint_sbintrunc')
  also have "\<dots> = int k"
    using assms by (intro signed_take_bit_int_eq_self) simp_all
  finally show ?thesis
    unfolding eq .
qed

lemma stackStructAllocation_loop_fold:
  "k \<le> 100 \<Longrightarrow>
   stackStructAllocation_loop (of_nat k) s =
     fold (\<lambda>i acc. acc + (of_nat i + of_nat i * 2)) [k..<100] s"
proof (induction "100 - k" arbitrary: k s)
  case 0
  then have k: "k = 100"
    by simp
  show ?case
    unfolding k by (subst stackStructAllocation_loop.simps) (simp add: word_sless_alt)
next
  case (Suc d)
  then have lt: "k < 100"
    by simp
  have cond: "(of_nat k :: goint) <s 100"
    using lt by (simp add: word_sless_alt sint_of_nat_small)
  have step: "stackStructAllocation_loop (of_nat k) s =
      stackStructAllocation_loop (of_nat (Suc k)) (s + (of_nat k + of_nat k * 2))"
    by (subst stackStructAllocation_loop.simps) (simp add: cond Let_def add.commute)
  have "stackStructAllocation_loop (of_nat (Suc k)) (s + (of_nat k + of_nat k * 2)) =
      fold (\<lambda>i acc. acc + (of_nat i + of_nat i * 2)) [Suc k..<100] (s + (of_nat k + of_nat k * 2))"
    using Suc.hyps(2) lt by (intro Suc.hyps(1)) simp_all
  with step lt show ?case
    by (simp add: upt_conv_Cons)
qed

subsection \<open>The panics of the model\<close>

text \<open>The failing branches are there: each of these operations panics where Go's does.\<close>

lemma load_nil_panics: "load_int NilPtr w = Inl NilDereference"
  by (simp add: load_int_def)

lemma store_nil_panics: "store_Age NilPtr v w = Inl NilDereference"
  by (simp add: store_Age_def)

lemma call_nil_panics: "call_func None w = Inl NilDereference"
  by (simp add: call_func_def)

lemma index_past_len_panics: "sint i \<ge> int (slen s) \<Longrightarrow> index_int s i w = Inl IndexOutOfRange"
  by (simp add: index_int_def)

lemma slice_past_cap_panics: "sint hi > int (scap s) \<Longrightarrow> slice_expr s lo hi = Inl SliceBoundsOutOfRange"
  by (simp add: slice_expr_def)

lemma TrackMemory_nil_panics: "TrackMemory rt name None w = Inl NilDereference"
  by (simp add: TrackMemory_def runtime_ReadMemStats_def call_func_def Let_def)

subsection \<open>Decimal numerals read back\<close>

lemma digit_value_digit: "k < 10 \<Longrightarrow> digit_value (digit k) = k"
proof -
  assume "k < 10"
  then have "k \<in> {0, 1, 2, 3, 4, 5, 6, 7, 8, 9}"
    by auto
  then show ?thesis
    by (auto simp: digit_value_def digit_def)
qed

lemma read_dec_snoc: "read_dec (s @ [c]) = 10 * read_dec s + digit_value c"
  by (simp add: read_dec_def)

lemma read_dec_dec: "read_dec (dec n) = n"
proof (induction n rule: dec.induct)
  case (1 n)
  show ?case
  proof (cases "n < 10")
    case True
    then show ?thesis
      by (subst dec.simps) (simp add: read_dec_def digit_value_digit)
  next
    case False
    then have "read_dec (dec n) = 10 * read_dec (dec (n div 10)) + digit_value (digit (n mod 10))"
      by (subst dec.simps) (simp add: read_dec_snoc)
    also have "\<dots> = 10 * (n div 10) + n mod 10"
      using False "1.IH" by (simp add: digit_value_digit)
    finally show ?thesis
      by simp
  qed
qed

subsection \<open>The package-level variables are never read\<close>

lemma with_globals_simps [simp]:
  "with_globals gi gp (Inl p) = Inl p"
  "with_globals gi gp (Inr w) = Inr (set_globals gi gp w)"
  "with_globals_v gi gp (Inl p) = Inl p"
  "with_globals_v gi gp (Inr (v, w)) = Inr (v, set_globals gi gp w)"
  by (simp_all add: with_globals_def with_globals_v_def)

lemma stackExample_globals:
  "stackExample (set_globals gi gp w) = with_globals gi gp (stackExample w)"
  by (simp add: stackExample_run set_globals_def)

lemma createUser_globals:
  "createUser (set_globals gi gp w) = with_globals_v gi gp (createUser w)"
  by (simp add: createUser_run set_globals_def)

lemma heapExample_globals:
  "heapExample (set_globals gi gp w) = with_globals gi gp (heapExample w)"
  by (simp add: heapExample_run set_globals_def)

lemma pointerSharingExample_globals:
  "pointerSharingExample (set_globals gi gp w) = with_globals gi gp (pointerSharingExample w)"
  by (simp add: pointerSharingExample_run set_globals_def)

lemma sliceSharingExample_globals:
  "sliceSharingExample (set_globals gi gp w) = with_globals gi gp (sliceSharingExample w)"
  by (simp add: sliceSharingExample_run set_globals_def)

lemma noEscape_globals:
  "noEscape (set_globals gi gp w) = with_globals gi gp (noEscape w)"
  by (simp add: noEscape_run set_globals_def)

lemma escapesViaReturn_globals:
  "escapesViaReturn (set_globals gi gp w) = with_globals_v gi gp (escapesViaReturn w)"
  by (simp add: escapesViaReturn_run set_globals_def)

lemma escapesViaInterface_globals:
  "escapesViaInterface (set_globals gi gp w) =
     with_globals (BoxedInt (next_addr w)) gp (escapesViaInterface w)"
  by (simp add: escapesViaInterface_run set_globals_def)

lemma escapesViaSizeTooLarge_globals:
  "escapesViaSizeTooLarge (set_globals gi gp w) = with_globals gi gp (escapesViaSizeTooLarge w)"
  by (simp add: escapesViaSizeTooLarge_run set_globals_def)

lemma noEscapeLocalPointer_globals:
  "noEscapeLocalPointer (set_globals gi gp w) = with_globals gi gp (noEscapeLocalPointer w)"
  by (simp add: noEscapeLocalPointer_run set_globals_def)

lemma escapesViaGlobal_globals:
  "escapesViaGlobal (set_globals gi gp w) =
     with_globals gi (Ptr (next_addr w)) (escapesViaGlobal w)"
  by (simp add: escapesViaGlobal_run set_globals_def)

lemma escapesViaClosure_globals:
  "escapesViaClosure (set_globals gi gp w) = with_globals_v gi gp (escapesViaClosure w)"
  by (simp add: escapesViaClosure_run set_globals_def)

lemma escapesViaClosure_func1_globals:
  "escapesViaClosure_func1 x (set_globals gi gp w) =
     with_globals_v gi gp (escapesViaClosure_func1 x w)"
  by (cases "int_cells w x")
     (simp_all add: escapesViaClosure_func1_def load_int_def enter_def leave_def emit_def
        Let_def set_globals_def)

lemma DemonstrateEscapeAnalysis_globals:
  "DemonstrateEscapeAnalysis (set_globals gi gp w) = DemonstrateEscapeAnalysis w"
  by (simp add: DemonstrateEscapeAnalysis_run set_globals_def)

lemma stackOnlyAllocation_globals:
  "stackOnlyAllocation (set_globals gi gp w) = with_globals gi gp (stackOnlyAllocation w)"
  by (simp add: stackOnlyAllocation_run set_globals_def)

lemma createLargeObject_globals:
  "createLargeObject i (set_globals gi gp w) = with_globals_v gi gp (createLargeObject i w)"
  by (simp add: createLargeObject_run set_globals_def)

lemma heapAllocationViaPointer_globals:
  "heapAllocationViaPointer (set_globals gi gp w) = with_globals gi gp (heapAllocationViaPointer w)"
  by (simp add: heapAllocationViaPointer_run set_globals_def)

lemma stackStructAllocation_globals:
  "stackStructAllocation (set_globals gi gp w) = with_globals gi gp (stackStructAllocation w)"
  by (simp add: stackStructAllocation_run set_globals_def)

lemma largeAllocation_globals:
  "largeAllocation (set_globals gi gp w) = with_globals gi gp (largeAllocation w)"
  by (simp add: largeAllocation_run set_globals_def)

lemma func_lit_globals:
  assumes "\<And>w'. f (set_globals gi gp w') = with_globals gi gp (f w')"
  shows "func_lit name f (set_globals gi gp w) = with_globals gi gp (func_lit name f w)"
proof -
  have pre: "(set_globals gi gp w)\<lparr>trace := trace (set_globals gi gp w) @ [Enter name]\<rparr> =
      set_globals gi gp (w\<lparr>trace := trace w @ [Enter name]\<rparr>)"
    by (simp add: set_globals_def)
  show ?thesis
    unfolding func_lit_eq pre assms
    by (cases "f (w\<lparr>trace := trace w @ [Enter name]\<rparr>)") (simp_all add: set_globals_def)
qed

lemma TrackMemory_globals:
  assumes "\<And>w'. fn (set_globals gi gp w') = with_globals gi gp (fn w')"
  shows "TrackMemory rt name (Some fn) (set_globals gi gp w) =
         with_globals gi gp (TrackMemory rt name (Some fn) w)"
proof -
  have pre: "(set_globals gi gp w)\<lparr>trace := trace (set_globals gi gp w) @
        [Enter ''TrackMemory'', RuntimeGC, RuntimeReadMemStats],
      mem_reads := Suc (mem_reads (set_globals gi gp w))\<rparr> =
      set_globals gi gp (w\<lparr>trace := trace w @ [Enter ''TrackMemory'', RuntimeGC, RuntimeReadMemStats],
        mem_reads := Suc (mem_reads w)\<rparr>)"
    by (simp add: set_globals_def)
  show ?thesis
    unfolding TrackMemory_eq pre assms
    by (cases "fn (w\<lparr>trace := trace w @ [Enter ''TrackMemory'', RuntimeGC, RuntimeReadMemStats],
                     mem_reads := Suc (mem_reads w)\<rparr>)")
       (simp_all add: set_globals_def)
qed

lemma TrackMemory_nil_globals:
  "TrackMemory rt name None (set_globals gi gp w) = with_globals gi gp (TrackMemory rt name None w)"
  by (simp add: TrackMemory_nil_panics)

lemma DemonstrateMemoryTracking_globals:
  "DemonstrateMemoryTracking rt (set_globals gi gp w) =
     with_globals gi gp (DemonstrateMemoryTracking rt w)"
  by (simp add: DemonstrateMemoryTracking_run set_globals_def)

lemma main_globals:
  "main rt (set_globals gi gp w) = main rt w"
  by (simp add: main_def demo_runs Println_def enter_def leave_def emit_def Let_def addr_plus
        set_globals_def)

section \<open>The claims\<close>

text \<open>
  C1. For every function \<open>fn\<close> passed to it, \<^verbatim>\<open>TrackMemory\<close> reads the memory statistics once
  before calling \<open>fn\<close> and once after \<open>fn\<close> returns, calls \<open>fn\<close> exactly once in between, and
  prints exactly the four deltas After minus Before (\<^verbatim>\<open>TotalAlloc\<close>, \<^verbatim>\<open>HeapAlloc\<close>,
  \<^verbatim>\<open>HeapObjects\<close>, \<^verbatim>\<open>Mallocs\<close>) under a header naming the demo; it computes nothing else
  from the statistics. Here \<open>w1\<close> is the world \<open>fn\<close> is called in: the collector has run and the
  statistics have been read once. If \<open>fn\<close> panics, so does \<^verbatim>\<open>TrackMemory\<close>; if \<open>fn\<close> returns
  the world \<open>w2\<close>, \<^verbatim>\<open>TrackMemory\<close> reads the statistics once more, prints the header and four
  lines, each with the decimal numeral of one counter of the second reading minus the same
  counter of the first (a 64-bit unsigned difference), and returns; two runtimes that agree
  on the four counters give the same run; and a decimal numeral printed reads back as its
  number.
\<close>

theorem TrackMemory_reads_calls_reports:
  "let w1 = w\<lparr>trace := trace w @ [Enter ''TrackMemory'', RuntimeGC, RuntimeReadMemStats],
                mem_reads := Suc (mem_reads w)\<rparr>
   in (\<forall>p. fn w1 = Inl p \<longrightarrow> TrackMemory rt name (Some fn) w = Inl p) \<and>
      (\<forall>w2. fn w1 = Inr w2 \<longrightarrow>
         TrackMemory rt name (Some fn) w =
           Inr (w2\<lparr>trace := trace w2 @
                  [RuntimeReadMemStats,
                   Print (nl @ ''=== Memory Tracking: '' @ name @ '' ==='' @ nl),
                   Print (''  Total allocated:     '' @
                          dec (unat (TotalAlloc (rt (mem_reads w2)) - TotalAlloc (rt (mem_reads w))))
                          @ '' bytes'' @ nl),
                   Print (''  Heap allocated:      '' @
                          dec (unat (HeapAlloc (rt (mem_reads w2)) - HeapAlloc (rt (mem_reads w))))
                          @ '' bytes'' @ nl),
                   Print (''  Heap objects added:  '' @
                          dec (unat (HeapObjects (rt (mem_reads w2)) - HeapObjects (rt (mem_reads w))))
                          @ nl),
                   Print (''  Mallocs:             '' @
                          dec (unat (Mallocs (rt (mem_reads w2)) - Mallocs (rt (mem_reads w))))
                          @ nl),
                   Leave ''TrackMemory''],
                  mem_reads := Suc (mem_reads w2)\<rparr>)) \<and>
      (\<forall>rt'. (\<forall>k. tracked (rt' k) = tracked (rt k)) \<longrightarrow>
         TrackMemory rt' name (Some fn) w = TrackMemory rt name (Some fn) w) \<and>
      (\<forall>n. read_dec (dec n) = n)"
proof -
  define w1 where "w1 = w\<lparr>trace := trace w @ [Enter ''TrackMemory'', RuntimeGC, RuntimeReadMemStats],
                mem_reads := Suc (mem_reads w)\<rparr>"
  have panics: "TrackMemory r name (Some fn) w = Inl p" if "fn w1 = Inl p" for r p
    using that unfolding w1_def by (simp add: TrackMemory_eq)
  have returns: "TrackMemory r name (Some fn) w =
      Inr (w2\<lparr>trace := trace w2 @ RuntimeReadMemStats #
                  map Print (delta_report name (r (mem_reads w)) (r (mem_reads w2))) @
                  [Leave ''TrackMemory''],
               mem_reads := Suc (mem_reads w2)\<rparr>)" if "fn w1 = Inr w2" for r w2
    using that unfolding w1_def by (simp add: TrackMemory_eq)
  have lines: "TrackMemory rt name (Some fn) w =
      Inr (w2\<lparr>trace := trace w2 @
             [RuntimeReadMemStats,
              Print (nl @ ''=== Memory Tracking: '' @ name @ '' ==='' @ nl),
              Print (''  Total allocated:     '' @
                     dec (unat (TotalAlloc (rt (mem_reads w2)) - TotalAlloc (rt (mem_reads w))))
                     @ '' bytes'' @ nl),
              Print (''  Heap allocated:      '' @
                     dec (unat (HeapAlloc (rt (mem_reads w2)) - HeapAlloc (rt (mem_reads w))))
                     @ '' bytes'' @ nl),
              Print (''  Heap objects added:  '' @
                     dec (unat (HeapObjects (rt (mem_reads w2)) - HeapObjects (rt (mem_reads w))))
                     @ nl),
              Print (''  Mallocs:             '' @
                     dec (unat (Mallocs (rt (mem_reads w2)) - Mallocs (rt (mem_reads w))))
                     @ nl),
              Leave ''TrackMemory''],
             mem_reads := Suc (mem_reads w2)\<rparr>)" if "fn w1 = Inr w2" for w2
    unfolding returns [OF that] delta_report_def fmt_d_uint64_def by simp
  have same: "TrackMemory rt' name (Some fn) w = TrackMemory rt name (Some fn) w"
    if agree: "\<forall>k. tracked (rt' k) = tracked (rt k)" for rt'
  proof (cases "fn w1")
    case (Inl p)
    then show ?thesis
      by (simp add: panics)
  next
    case (Inr w2)
    have "delta_report name (rt' (mem_reads w)) (rt' (mem_reads w2)) =
          delta_report name (rt (mem_reads w)) (rt (mem_reads w2))"
      using agree by (intro delta_report_tracked) simp_all
    with Inr show ?thesis
      by (simp add: returns)
  qed
  show ?thesis
    unfolding Let_def w1_def [symmetric] using panics lines same read_dec_dec by blast
qed

theorem TrackMemory_reads_calls_reports_witness:
  "TrackMemory growing_runtime ''Stack Only (should be minimal)''
     (Some (func_lit ''DemonstrateMemoryTracking.func1'' stackOnlyAllocation)) (start 0) =
   Inr ((start 0)\<lparr>trace :=
       [Enter ''TrackMemory'', RuntimeGC, RuntimeReadMemStats,
        Enter ''DemonstrateMemoryTracking.func1'',
        Enter ''stackOnlyAllocation'', Leave ''stackOnlyAllocation'',
        Leave ''DemonstrateMemoryTracking.func1'',
        RuntimeReadMemStats,
        Print (nl @ ''=== Memory Tracking: Stack Only (should be minimal) ==='' @ nl),
        Print (''  Total allocated:     1024 bytes'' @ nl),
        Print (''  Heap allocated:      512 bytes'' @ nl),
        Print (''  Heap objects added:  3'' @ nl),
        Print (''  Mallocs:             5'' @ nl),
        Leave ''TrackMemory''],
     mem_reads := 2\<rparr>) \<and>
   TrackMemory sweeping_runtime ''Stack Only (should be minimal)''
     (Some (func_lit ''DemonstrateMemoryTracking.func1'' stackOnlyAllocation)) (start 0) =
   TrackMemory growing_runtime ''Stack Only (should be minimal)''
     (Some (func_lit ''DemonstrateMemoryTracking.func1'' stackOnlyAllocation)) (start 0) \<and>
   read_dec ''1024'' = 1024 \<and> read_dec ''512'' = 512"
proof -
  let ?fn = "func_lit ''DemonstrateMemoryTracking.func1'' stackOnlyAllocation"
  let ?w1 = "(start 0)\<lparr>trace := trace (start 0) @ [Enter ''TrackMemory'', RuntimeGC, RuntimeReadMemStats],
                mem_reads := Suc (mem_reads (start 0))\<rparr>"
  let ?w2 = "(start 0)\<lparr>trace := [Enter ''TrackMemory'', RuntimeGC, RuntimeReadMemStats,
        Enter ''DemonstrateMemoryTracking.func1'',
        Enter ''stackOnlyAllocation'', Leave ''stackOnlyAllocation'',
        Leave ''DemonstrateMemoryTracking.func1''], mem_reads := 1\<rparr>"
  have called: "?fn ?w1 = Inr ?w2"
    by (simp add: func_lit_eq stackOnlyAllocation_run)
  have agree: "\<forall>k. tracked (sweeping_runtime k) = tracked (growing_runtime k)"
    by (simp add: tracked_sweeping)
  note fact = TrackMemory_reads_calls_reports
      [of "start 0" ?fn growing_runtime "''Stack Only (should be minimal)''", unfolded Let_def]
  have run: "TrackMemory growing_runtime ''Stack Only (should be minimal)'' (Some ?fn) (start 0) =
     Inr ((start 0)\<lparr>trace :=
       [Enter ''TrackMemory'', RuntimeGC, RuntimeReadMemStats,
        Enter ''DemonstrateMemoryTracking.func1'',
        Enter ''stackOnlyAllocation'', Leave ''stackOnlyAllocation'',
        Leave ''DemonstrateMemoryTracking.func1'',
        RuntimeReadMemStats,
        Print (nl @ ''=== Memory Tracking: Stack Only (should be minimal) ==='' @ nl),
        Print (''  Total allocated:     1024 bytes'' @ nl),
        Print (''  Heap allocated:      512 bytes'' @ nl),
        Print (''  Heap objects added:  3'' @ nl),
        Print (''  Mallocs:             5'' @ nl),
        Leave ''TrackMemory''],
     mem_reads := 2\<rparr>)"
    using fact [THEN conjunct2, THEN conjunct1, rule_format, OF called]
    by (simp add: growing_runtime_def zero_MemStats_def dec.simps digit_def)
  have same: "TrackMemory sweeping_runtime ''Stack Only (should be minimal)'' (Some ?fn) (start 0) =
      TrackMemory growing_runtime ''Stack Only (should be minimal)'' (Some ?fn) (start 0)"
    using fact [THEN conjunct2, THEN conjunct2, THEN conjunct1] agree by blast
  have readback: "read_dec ''1024'' = 1024 \<and> read_dec ''512'' = 512"
    using fact [THEN conjunct2, THEN conjunct2, THEN conjunct2, rule_format, of 1024]
      fact [THEN conjunct2, THEN conjunct2, THEN conjunct2, rule_format, of 512]
    by (simp add: dec.simps digit_def)
  show ?thesis
    using run same readback by (intro conjI) simp_all
qed

text \<open>
  C2, as stated, fails: the claim says \<^verbatim>\<open>main\<close> prints a labeled section header before each
  group of demos, but in a run of \<^verbatim>\<open>main\<close> nothing is printed between the return of
  \<^verbatim>\<open>sliceSharingExample\<close> and the call of \<^verbatim>\<open>DemonstrateEscapeAnalysis\<close>.
\<close>

theorem main_no_header_before_escape_analysis:
  "\<not> header_before ''DemonstrateEscapeAnalysis''
       (own_actions (events (main idle_runtime (start 0))))"
  using main_run [of idle_runtime "start 0"]
  by (clarsimp simp: trace_reading)

text \<open>
  C2, amended. \<^verbatim>\<open>main\<close> invokes each demo exactly once, in the fixed sequence
  \<^verbatim>\<open>stackExample\<close>, \<^verbatim>\<open>heapExample\<close>, \<^verbatim>\<open>pointerSharingExample\<close>, \<^verbatim>\<open>sliceSharingExample\<close>,
  \<^verbatim>\<open>DemonstrateEscapeAnalysis\<close>, \<^verbatim>\<open>DemonstrateMemoryTracking\<close>; it prints a title and a labeled
  section header before each of the first three groups only (before \<^verbatim>\<open>stackExample\<close>, before
  \<^verbatim>\<open>pointerSharingExample\<close> and before \<^verbatim>\<open>sliceSharingExample\<close>) and nothing before the last
  two demos; it does nothing else, and the program exits with code zero. The list is the
  whole body of \<^verbatim>\<open>main\<close> as it runs: its own prints and its calls.
\<close>

theorem main_sequence:
  "own_actions (events (main rt (start n))) =
     [Print (''=== Go Memory Model Playground ==='' @ nl),
      Print nl,
      Print (''1. Stack vs Heap Allocation'' @ nl),
      Enter ''stackExample'',
      Enter ''heapExample'',
      Print (nl @ ''2. Pointer Sharing (Multiple References)'' @ nl),
      Enter ''pointerSharingExample'',
      Print (nl @ ''3. Slice Sharing (Shared Backing Array)'' @ nl),
      Enter ''sliceSharingExample'',
      Enter ''DemonstrateEscapeAnalysis'',
      Enter ''DemonstrateMemoryTracking''] \<and>
   exit_code (main rt (start n)) = 0"
  using main_run [of rt "start n"]
  by (clarsimp simp: events_def exit_code_def trace_reading)

text \<open>
  C3. In \<^verbatim>\<open>sliceSharingExample\<close>, where \<^verbatim>\<open>slice1 = original[1:4]\<close> and
  \<^verbatim>\<open>slice2 = original[2:]\<close> over \<^verbatim>\<open>original = [1,2,3,4,5]\<close>, the single assignment
  \<^verbatim>\<open>slice1[1] = 99\<close> makes \<^verbatim>\<open>original[2]\<close>, \<^verbatim>\<open>slice1[1]\<close> and \<^verbatim>\<open>slice2[0]\<close> all equal 99,
  while every other element of \<^verbatim>\<open>original\<close> keeps its initial value. The three slices share
  one backing array, the function assigns to one element of it once, and at the end of the
  whole function the array holds 1, 2, 99, 4, 5.
\<close>

theorem sliceSharingExample_one_write_three_views:
  "\<exists>original slice1 slice2 w'.
     sliceSharingExample_assign w = Inr ((original, slice1, slice2), w') \<and>
     index_int original 2 w' = Inr 99 \<and> index_int slice1 1 w' = Inr 99 \<and>
     index_int slice2 0 w' = Inr 99 \<and>
     index_int original 0 w' = Inr 1 \<and> index_int original 1 w' = Inr 2 \<and>
     index_int original 3 w' = Inr 4 \<and> index_int original 4 w' = Inr 5 \<and>
     elems_int original w' = Inr [1, 2, 99, 4, 5] \<and>
     elems_int slice1 w' = Inr [2, 99, 4] \<and>
     elems_int slice2 w' = Inr [99, 4, 5] \<and>
     base slice1 = base original \<and> base slice2 = base original \<and>
     elem_writes (drop (length (trace w)) (trace w')) = [(base original, 2)] \<and>
     (\<exists>w''. sliceSharingExample w = Inr w'' \<and>
        int_arrays w'' (base original) = Some [1, 2, 99, 4, 5] \<and>
        elem_writes (drop (length (trace w)) (trace w'')) = [(base original, 2)])"
  by (simp add: sliceSharingExample_assign_run sliceSharingExample_run index_int_def elems_int_def
        word_sle_eq elem_writes_def)

text \<open>
  C4, as stated, fails: the claim says that no field of an existing \<^verbatim>\<open>User\<close> or
  \<^verbatim>\<open>LargeObject\<close> is ever reassigned, but a run of \<^verbatim>\<open>main\<close> assigns to a field of a
  \<^verbatim>\<open>User\<close> that exists already (\<^verbatim>\<open>ptr1.Age = 26\<close> in \<^verbatim>\<open>pointerSharingExample\<close>).
\<close>

theorem main_mutates_a_User:
  "field_writes (events (main idle_runtime (start 0))) \<noteq> []"
  using main_run [of idle_runtime "start 0"]
  by (clarsimp simp: trace_reading)

text \<open>
  C4, amended. Every \<^verbatim>\<open>LargeObject\<close> and the \<^verbatim>\<open>User\<close> made by \<^verbatim>\<open>createUser\<close>, once
  constructed, are only printed or stored and never mutated afterwards; the \<^verbatim>\<open>User\<close> made
  by \<^verbatim>\<open>pointerSharingExample\<close> is mutated exactly once, by \<^verbatim>\<open>ptr1.Age = 26\<close>, which takes its
  \<^verbatim>\<open>Age\<close> from 25 to 26. In every run of \<^verbatim>\<open>main\<close> there is one assignment to a field of an
  existing \<^verbatim>\<open>User\<close> or \<^verbatim>\<open>LargeObject\<close>: to the \<^verbatim>\<open>Age\<close> of the second cell of the run, which
  held 25 and is given 26. At the end the two \<^verbatim>\<open>User\<close> values are Alice, 30 (as built) and
  Bob, 26, and the ten \<^verbatim>\<open>LargeObject\<close> values are as \<^verbatim>\<open>createLargeObject\<close> built them,
  \<^verbatim>\<open>ID\<close> 0 to 9, each with its own 1024-byte slice.
\<close>

theorem main_field_writes:
  "field_writes (events (main rt (start n))) = [(n + 1, ''Age'', 25, 26)] \<and>
   (\<exists>w'. main rt (start n) = Inr w' \<and>
      user_cells w' = [n \<mapsto> \<lparr>Name = ''Alice'', Age = 30\<rparr>, n + 1 \<mapsto> \<lparr>Name = ''Bob'', Age = 26\<rparr>] \<and>
      large_cells w' = fold (\<lambda>i m. m(n + 13 + 2 * i + 2 \<mapsto>
                         \<lparr>ID = of_nat i, Data = \<lparr>base = n + 13 + 2 * i + 1, off = 0,
                                                 slen = 1024, scap = 1024\<rparr>\<rparr>)) [0..<10]
                       Map.empty)"
  using main_run [of rt "start n"]
  by (clarsimp simp: trace_reading)

text \<open>
  C5, as stated, fails: the claim says the escape-analysis source has exactly one global
  variable, but a run of \<^verbatim>\<open>DemonstrateEscapeAnalysis\<close> assigns to two different package-level
  variables.
\<close>

theorem escape_analysis_two_globals:
  "length (remdups (global_writes (events (DemonstrateEscapeAnalysis (start 0))))) \<noteq> 1"
  by (simp add: DemonstrateEscapeAnalysis_run trace_reading)

text \<open>
  C5, amended. The escape-analysis source has two global variables, \<^verbatim>\<open>globalInterface\<close> and
  \<^verbatim>\<open>globalPtr\<close>, each assigned once by a run of \<^verbatim>\<open>DemonstrateEscapeAnalysis\<close>, and one
  closure. No function of the program reads a global back or uses it: run from a world with
  any other values \<open>gi\<close> and \<open>gp\<close> in the two globals, every function panics or returns the
  same, with the same value and the same final world, except that the globals it does not
  assign still hold \<open>gi\<close> and \<open>gp\<close>. \<^verbatim>\<open>escapesViaInterface\<close> leaves in \<^verbatim>\<open>globalInterface\<close> the
  box it made and \<^verbatim>\<open>escapesViaGlobal\<close> leaves in \<^verbatim>\<open>globalPtr\<close> the pointer it made, whatever
  was there; the driver and \<^verbatim>\<open>main\<close>, which assign both, do not depend on the globals at
  all. \<^verbatim>\<open>TrackMemory\<close> and a function literal are as independent of the globals as the
  function they are given.
\<close>

theorem escape_analysis_globals_and_closure:
  "global_writes (events (DemonstrateEscapeAnalysis (start n))) = [''globalInterface'', ''globalPtr''] \<and>
   closures (events (DemonstrateEscapeAnalysis (start n))) = [''escapesViaClosure.func1''] \<and>
   noEscape (set_globals gi gp w) = with_globals gi gp (noEscape w) \<and>
   escapesViaReturn (set_globals gi gp w) = with_globals_v gi gp (escapesViaReturn w) \<and>
   escapesViaInterface (set_globals gi gp w) =
     with_globals (BoxedInt (next_addr w)) gp (escapesViaInterface w) \<and>
   escapesViaSizeTooLarge (set_globals gi gp w) = with_globals gi gp (escapesViaSizeTooLarge w) \<and>
   noEscapeLocalPointer (set_globals gi gp w) = with_globals gi gp (noEscapeLocalPointer w) \<and>
   escapesViaGlobal (set_globals gi gp w) =
     with_globals gi (Ptr (next_addr w)) (escapesViaGlobal w) \<and>
   escapesViaClosure (set_globals gi gp w) = with_globals_v gi gp (escapesViaClosure w) \<and>
   escapesViaClosure_func1 x (set_globals gi gp w) =
     with_globals_v gi gp (escapesViaClosure_func1 x w) \<and>
   DemonstrateEscapeAnalysis (set_globals gi gp w) = DemonstrateEscapeAnalysis w \<and>
   stackExample (set_globals gi gp w) = with_globals gi gp (stackExample w) \<and>
   createUser (set_globals gi gp w) = with_globals_v gi gp (createUser w) \<and>
   heapExample (set_globals gi gp w) = with_globals gi gp (heapExample w) \<and>
   pointerSharingExample (set_globals gi gp w) = with_globals gi gp (pointerSharingExample w) \<and>
   sliceSharingExample (set_globals gi gp w) = with_globals gi gp (sliceSharingExample w) \<and>
   stackOnlyAllocation (set_globals gi gp w) = with_globals gi gp (stackOnlyAllocation w) \<and>
   createLargeObject i (set_globals gi gp w) = with_globals_v gi gp (createLargeObject i w) \<and>
   heapAllocationViaPointer (set_globals gi gp w) =
     with_globals gi gp (heapAllocationViaPointer w) \<and>
   stackStructAllocation (set_globals gi gp w) = with_globals gi gp (stackStructAllocation w) \<and>
   largeAllocation (set_globals gi gp w) = with_globals gi gp (largeAllocation w) \<and>
   ((\<forall>w'. f (set_globals gi gp w') = with_globals gi gp (f w')) \<longrightarrow>
      func_lit lit f (set_globals gi gp w) = with_globals gi gp (func_lit lit f w) \<and>
      TrackMemory rt name (Some f) (set_globals gi gp w) =
        with_globals gi gp (TrackMemory rt name (Some f) w)) \<and>
   TrackMemory rt name None (set_globals gi gp w) = with_globals gi gp (TrackMemory rt name None w) \<and>
   DemonstrateMemoryTracking rt (set_globals gi gp w) =
     with_globals gi gp (DemonstrateMemoryTracking rt w) \<and>
   main rt (set_globals gi gp w) = main rt w"
proof -
  have driver: "global_writes (events (DemonstrateEscapeAnalysis (start n))) =
      [''globalInterface'', ''globalPtr''] \<and>
      closures (events (DemonstrateEscapeAnalysis (start n))) = [''escapesViaClosure.func1'']"
    by (simp add: DemonstrateEscapeAnalysis_run trace_reading)
  have given: "(\<forall>w'. f (set_globals gi gp w') = with_globals gi gp (f w')) \<longrightarrow>
      func_lit lit f (set_globals gi gp w) = with_globals gi gp (func_lit lit f w) \<and>
      TrackMemory rt name (Some f) (set_globals gi gp w) =
        with_globals gi gp (TrackMemory rt name (Some f) w)"
    using func_lit_globals [of f gi gp lit w] TrackMemory_globals [of f gi gp rt name w]
    by blast
  show ?thesis
    using driver given
    by (simp only: noEscape_globals escapesViaReturn_globals escapesViaInterface_globals
          escapesViaSizeTooLarge_globals noEscapeLocalPointer_globals escapesViaGlobal_globals
          escapesViaClosure_globals escapesViaClosure_func1_globals
          DemonstrateEscapeAnalysis_globals stackExample_globals createUser_globals
          heapExample_globals pointerSharingExample_globals sliceSharingExample_globals
          stackOnlyAllocation_globals createLargeObject_globals heapAllocationViaPointer_globals
          stackStructAllocation_globals largeAllocation_globals TrackMemory_nil_globals
          DemonstrateMemoryTracking_globals main_globals simp_thms)
qed

theorem escape_analysis_globals_and_closure_witness:
  "func_lit ''DemonstrateMemoryTracking.func1'' stackOnlyAllocation
     (set_globals (BoxedInt 7) (Ptr 3) (start 0)) =
   with_globals (BoxedInt 7) (Ptr 3)
     (func_lit ''DemonstrateMemoryTracking.func1'' stackOnlyAllocation (start 0)) \<and>
   TrackMemory idle_runtime ''Stack Only (should be minimal)'' (Some stackOnlyAllocation)
     (set_globals (BoxedInt 7) (Ptr 3) (start 0)) =
   with_globals (BoxedInt 7) (Ptr 3)
     (TrackMemory idle_runtime ''Stack Only (should be minimal)'' (Some stackOnlyAllocation)
        (start 0)) \<and>
   escapesViaGlobal (set_globals (BoxedInt 7) (Ptr 3) (start 0)) =
     with_globals (BoxedInt 7) (Ptr 0) (escapesViaGlobal (start 0)) \<and>
   main idle_runtime (set_globals (BoxedInt 7) (Ptr 3) (start 0)) = main idle_runtime (start 0)"
proof -
  note fact = escape_analysis_globals_and_closure
      [where n = 0 and gi = "BoxedInt 7" and gp = "Ptr 3" and w = "start 0" and x = 0 and i = 0
         and f = stackOnlyAllocation and lit = "''DemonstrateMemoryTracking.func1''"
         and rt = idle_runtime and name = "''Stack Only (should be minimal)''"]
  have indep: "\<forall>w'. stackOnlyAllocation (set_globals (BoxedInt 7) (Ptr 3) w') =
      with_globals (BoxedInt 7) (Ptr 3) (stackOnlyAllocation w')"
    by (simp add: stackOnlyAllocation_globals)
  have made: "next_addr (start 0) = 0"
    by (simp add: start_def)
  show ?thesis
    using fact indep unfolding made by blast
qed

text \<open>
  C6. The escape-analysis program consists of between 5 and 7 tiny demo functions, each
  performing at most one allocation, and a driver that calls each of them once; no function
  in it does anything beyond what is needed to trigger or avoid an escape diagnostic. The
  driver's body is eight calls and nothing else: the seven demo functions, each once, and the
  closure the seventh returned. A run of the driver prints nothing and assigns to no field
  and to no slice element; \<^verbatim>\<open>noEscape\<close> creates no cell and each other demo function creates
  exactly one.
\<close>

theorem DemonstrateEscapeAnalysis_demos:
  "calls (own_actions (events (DemonstrateEscapeAnalysis (start n)))) =
     [''noEscape'', ''escapesViaReturn'', ''escapesViaInterface'', ''escapesViaSizeTooLarge'',
      ''noEscapeLocalPointer'', ''escapesViaGlobal'', ''escapesViaClosure'',
      ''escapesViaClosure.func1''] \<and>
   own_actions (events (DemonstrateEscapeAnalysis (start n))) =
     map Enter (calls (own_actions (events (DemonstrateEscapeAnalysis (start n))))) \<and>
   length [f \<leftarrow> calls (own_actions (events (DemonstrateEscapeAnalysis (start n)))).
             f \<noteq> ''escapesViaClosure.func1''] \<in> {5..7} \<and>
   stdout (events (DemonstrateEscapeAnalysis (start n))) = [] \<and>
   field_writes (events (DemonstrateEscapeAnalysis (start n))) = [] \<and>
   elem_writes (events (DemonstrateEscapeAnalysis (start n))) = [] \<and>
   allocations (events (noEscape w)) = allocations (trace w) \<and>
   allocations (events (dropv (escapesViaReturn w))) = allocations (trace w) @ [next_addr w] \<and>
   allocations (events (escapesViaInterface w)) = allocations (trace w) @ [next_addr w] \<and>
   allocations (events (escapesViaSizeTooLarge w)) = allocations (trace w) @ [next_addr w] \<and>
   allocations (events (noEscapeLocalPointer w)) = allocations (trace w) @ [next_addr w] \<and>
   allocations (events (escapesViaGlobal w)) = allocations (trace w) @ [next_addr w] \<and>
   allocations (events (dropv (escapesViaClosure w))) = allocations (trace w) @ [next_addr w]"
  by (simp add: DemonstrateEscapeAnalysis_run noEscape_run escapesViaReturn_run
        escapesViaInterface_run escapesViaSizeTooLarge_run noEscapeLocalPointer_run
        escapesViaGlobal_run escapesViaClosure_run own_actions_def calls_def field_writes_def
        elem_writes_def stdout_def)

text \<open>
  C7. No demo function of the Go program has a failure path: from every world and for every
  sequence of runtime statistics, \<^verbatim>\<open>main\<close> and each demo it calls return without a panic,
  so every slice expression and index was within bounds, every pointer dereferenced was not
  nil and every function value called was not nil.
\<close>

theorem no_panic_reachable:
  "(\<exists>w'. main rt w = Inr w') \<and>
   (\<exists>w'. stackExample w = Inr w') \<and>
   (\<exists>w'. heapExample w = Inr w') \<and>
   (\<exists>r. createUser w = Inr r) \<and>
   (\<exists>w'. pointerSharingExample w = Inr w') \<and>
   (\<exists>w'. sliceSharingExample w = Inr w') \<and>
   (\<exists>w'. DemonstrateEscapeAnalysis w = Inr w') \<and>
   (\<exists>w'. noEscape w = Inr w') \<and>
   (\<exists>r. escapesViaReturn w = Inr r) \<and>
   (\<exists>w'. escapesViaInterface w = Inr w') \<and>
   (\<exists>w'. escapesViaSizeTooLarge w = Inr w') \<and>
   (\<exists>w'. noEscapeLocalPointer w = Inr w') \<and>
   (\<exists>w'. escapesViaGlobal w = Inr w') \<and>
   (\<exists>r. escapesViaClosure w = Inr r) \<and>
   (\<exists>w'. DemonstrateMemoryTracking rt w = Inr w') \<and>
   (\<exists>w'. stackOnlyAllocation w = Inr w') \<and>
   (\<exists>w'. stackStructAllocation w = Inr w') \<and>
   (\<exists>r. createLargeObject i w = Inr r) \<and>
   (\<exists>w'. heapAllocationViaPointer w = Inr w') \<and>
   (\<exists>w'. largeAllocation w = Inr w')"
  using main_run [of rt w]
  by (auto simp: demo_runs tracked_runs createUser_run createLargeObject_run noEscape_run escapesViaReturn_run escapesViaInterface_run
        escapesViaSizeTooLarge_run noEscapeLocalPointer_run escapesViaGlobal_run
        escapesViaClosure_run)

text \<open>
  C8. \<^verbatim>\<open>TrackMemory\<close> computes its deltas by unsigned 64-bit subtraction After minus Before:
  whenever the tracked function returns, \<^verbatim>\<open>TrackMemory\<close> returns too, and each number it
  prints is the difference modulo \<open>2\<^sup>6\<^sup>4\<close>. So where a statistic went down, the number printed
  is \<open>2\<^sup>6\<^sup>4\<close> minus the decrease, a positive number, and what is printed has digits only,
  never a minus sign.
\<close>

theorem TrackMemory_deltas_wrap:
  assumes "fn (w\<lparr>trace := trace w @ [Enter ''TrackMemory'', RuntimeGC, RuntimeReadMemStats],
                 mem_reads := Suc (mem_reads w)\<rparr>) = Inr w2"
  shows "let before = rt (mem_reads w); after = rt (mem_reads w2);
             delta = (\<lambda>x y :: uint64. (2 ^ 64 + unat x - unat y) mod 2 ^ 64)
         in (\<exists>w3. TrackMemory rt name (Some fn) w = Inr w3 \<and>
               trace w3 = trace w2 @
                 [RuntimeReadMemStats,
                  Print (nl @ ''=== Memory Tracking: '' @ name @ '' ==='' @ nl),
                  Print (''  Total allocated:     '' @
                         dec (delta (TotalAlloc after) (TotalAlloc before)) @ '' bytes'' @ nl),
                  Print (''  Heap allocated:      '' @
                         dec (delta (HeapAlloc after) (HeapAlloc before)) @ '' bytes'' @ nl),
                  Print (''  Heap objects added:  '' @
                         dec (delta (HeapObjects after) (HeapObjects before)) @ nl),
                  Print (''  Mallocs:             '' @
                         dec (delta (Mallocs after) (Mallocs before)) @ nl),
                  Leave ''TrackMemory'']) \<and>
            (\<forall>x y. x < y \<longrightarrow> delta x y = 2 ^ 64 - (unat y - unat x) \<and> 0 < delta x y) \<and>
            (\<forall>x y. set (dec (delta x y)) \<subseteq> set ''0123456789'')"
proof -
  have run: "TrackMemory rt name (Some fn) w =
      Inr (w2\<lparr>trace := trace w2 @ RuntimeReadMemStats #
                  map Print (delta_report name (rt (mem_reads w)) (rt (mem_reads w2))) @
                  [Leave ''TrackMemory''],
               mem_reads := Suc (mem_reads w2)\<rparr>)"
    using assms by (simp add: TrackMemory_eq)
  have lines: "delta_report name b a =
     [nl @ ''=== Memory Tracking: '' @ name @ '' ==='' @ nl,
      ''  Total allocated:     '' @
        dec ((2 ^ 64 + unat (TotalAlloc a) - unat (TotalAlloc b)) mod 2 ^ 64) @ '' bytes'' @ nl,
      ''  Heap allocated:      '' @
        dec ((2 ^ 64 + unat (HeapAlloc a) - unat (HeapAlloc b)) mod 2 ^ 64) @ '' bytes'' @ nl,
      ''  Heap objects added:  '' @
        dec ((2 ^ 64 + unat (HeapObjects a) - unat (HeapObjects b)) mod 2 ^ 64) @ nl,
      ''  Mallocs:             '' @
        dec ((2 ^ 64 + unat (Mallocs a) - unat (Mallocs b)) mod 2 ^ 64) @ nl]" for a b
    unfolding delta_report_def fmt_d_uint64_def unat_delta ..
  have report: "\<exists>w3. TrackMemory rt name (Some fn) w = Inr w3 \<and>
      trace w3 = trace w2 @ RuntimeReadMemStats #
        map Print (delta_report name (rt (mem_reads w)) (rt (mem_reads w2))) @ [Leave ''TrackMemory'']"
    by (simp add: run)
  have wraps: "\<forall>x y :: uint64. x < y \<longrightarrow>
      (2 ^ 64 + unat x - unat y) mod 2 ^ 64 = 2 ^ 64 - (unat y - unat x) \<and>
      0 < (2 ^ 64 + unat x - unat y) mod (2 ^ 64 :: nat)"
    using delta_decrease by blast
  have digits: "\<forall>x y :: uint64. set (dec ((2 ^ 64 + unat x - unat y) mod 2 ^ 64)) \<subseteq> set ''0123456789''"
    using dec_digits by blast
  from report have report': "\<exists>w3. TrackMemory rt name (Some fn) w = Inr w3 \<and>
      trace w3 = trace w2 @
        [RuntimeReadMemStats,
         Print (nl @ ''=== Memory Tracking: '' @ name @ '' ==='' @ nl),
         Print (''  Total allocated:     '' @
                dec ((2 ^ 64 + unat (TotalAlloc (rt (mem_reads w2))) - unat (TotalAlloc (rt (mem_reads w)))) mod 2 ^ 64)
                @ '' bytes'' @ nl),
         Print (''  Heap allocated:      '' @
                dec ((2 ^ 64 + unat (HeapAlloc (rt (mem_reads w2))) - unat (HeapAlloc (rt (mem_reads w)))) mod 2 ^ 64)
                @ '' bytes'' @ nl),
         Print (''  Heap objects added:  '' @
                dec ((2 ^ 64 + unat (HeapObjects (rt (mem_reads w2))) - unat (HeapObjects (rt (mem_reads w)))) mod 2 ^ 64)
                @ nl),
         Print (''  Mallocs:             '' @
                dec ((2 ^ 64 + unat (Mallocs (rt (mem_reads w2))) - unat (Mallocs (rt (mem_reads w)))) mod 2 ^ 64)
                @ nl),
         Leave ''TrackMemory'']"
    unfolding lines list.map append.simps .
  show ?thesis
    unfolding Let_def by (intro conjI report' wraps digits)
qed

theorem TrackMemory_deltas_wrap_witness:
  "events (TrackMemory shrinking_runtime ''Stack Only (should be minimal)''
     (Some (func_lit ''DemonstrateMemoryTracking.func1'' stackOnlyAllocation)) (start 0)) =
     [Enter ''TrackMemory'', RuntimeGC, RuntimeReadMemStats,
      Enter ''DemonstrateMemoryTracking.func1'',
      Enter ''stackOnlyAllocation'', Leave ''stackOnlyAllocation'',
      Leave ''DemonstrateMemoryTracking.func1'',
      RuntimeReadMemStats,
      Print (nl @ ''=== Memory Tracking: Stack Only (should be minimal) ==='' @ nl),
      Print (''  Total allocated:     1024 bytes'' @ nl),
      Print (''  Heap allocated:      18446744073709550592 bytes'' @ nl),
      Print (''  Heap objects added:  18446744073709551614'' @ nl),
      Print (''  Mallocs:             1'' @ nl),
      Leave ''TrackMemory''] \<and>
   HeapAlloc (shrinking_runtime 1) < HeapAlloc (shrinking_runtime 0) \<and>
   (2 ^ 64 + unat (HeapAlloc (shrinking_runtime 1)) - unat (HeapAlloc (shrinking_runtime 0))) mod 2 ^ 64
     = (18446744073709550592 :: nat)"
proof -
  let ?fn = "func_lit ''DemonstrateMemoryTracking.func1'' stackOnlyAllocation"
  let ?w2 = "(start 0)\<lparr>trace := [Enter ''TrackMemory'', RuntimeGC, RuntimeReadMemStats,
        Enter ''DemonstrateMemoryTracking.func1'',
        Enter ''stackOnlyAllocation'', Leave ''stackOnlyAllocation'',
        Leave ''DemonstrateMemoryTracking.func1''], mem_reads := 1\<rparr>"
  have called: "?fn ((start 0)\<lparr>trace := trace (start 0) @
        [Enter ''TrackMemory'', RuntimeGC, RuntimeReadMemStats],
      mem_reads := Suc (mem_reads (start 0))\<rparr>) = Inr ?w2"
    by (simp add: func_lit_eq stackOnlyAllocation_run)
  note wrap = TrackMemory_deltas_wrap [where fn = ?fn and w = "start 0" and ?w2.0 = ?w2
      and rt = shrinking_runtime and name = "''Stack Only (should be minimal)''",
      OF called, unfolded Let_def]
  have down: "HeapAlloc (shrinking_runtime 1) < HeapAlloc (shrinking_runtime 0)"
    by (simp add: shrinking_runtime_def zero_MemStats_def)
  have run: "events (TrackMemory shrinking_runtime ''Stack Only (should be minimal)''
     (Some ?fn) (start 0)) =
     [Enter ''TrackMemory'', RuntimeGC, RuntimeReadMemStats,
      Enter ''DemonstrateMemoryTracking.func1'',
      Enter ''stackOnlyAllocation'', Leave ''stackOnlyAllocation'',
      Leave ''DemonstrateMemoryTracking.func1'',
      RuntimeReadMemStats,
      Print (nl @ ''=== Memory Tracking: Stack Only (should be minimal) ==='' @ nl),
      Print (''  Total allocated:     1024 bytes'' @ nl),
      Print (''  Heap allocated:      18446744073709550592 bytes'' @ nl),
      Print (''  Heap objects added:  18446744073709551614'' @ nl),
      Print (''  Mallocs:             1'' @ nl),
      Leave ''TrackMemory'']"
    using wrap [THEN conjunct1]
    by (clarsimp simp: shrinking_runtime_def zero_MemStats_def dec.simps digit_def)
  have amount: "(2 ^ 64 + unat (HeapAlloc (shrinking_runtime 1))
        - unat (HeapAlloc (shrinking_runtime 0))) mod 2 ^ 64 = (18446744073709550592 :: nat)"
    using wrap [THEN conjunct2, THEN conjunct1, rule_format, OF down, THEN conjunct1]
    by (simp add: shrinking_runtime_def zero_MemStats_def)
  show ?thesis
    using run down amount by (intro conjI)
qed

text \<open>
  C9. \<^verbatim>\<open>main\<close> and every demo function it invokes terminate on every execution: \<^verbatim>\<open>main\<close>
  returns from every start; along its run no function is entered while a call of it is still
  running (no recursion) and every call returns; the loop of \<^verbatim>\<open>heapAllocationViaPointer\<close>
  runs 10 times (for \<open>i\<close> from 0 to 9, one call of \<^verbatim>\<open>createLargeObject\<close> and one assignment to
  \<^verbatim>\<open>objects[i]\<close> each), and the loop of \<^verbatim>\<open>stackStructAllocation\<close> runs 100 times (its body
  folded over 0 to 99).
\<close>

theorem main_terminates:
  "(\<exists>w'. main rt (start n) = Inr w') \<and>
   well_nested [] (events (main rt (start n))) \<and>
   elem_writes (events (heapAllocationViaPointer (start n))) = map (\<lambda>i. (n, i)) [0..<10] \<and>
   length [f \<leftarrow> calls (events (heapAllocationViaPointer (start n))). f = ''createLargeObject''] = 10 \<and>
   stackStructAllocation_loop 0 s = fold (\<lambda>i acc. acc + (of_nat i + of_nat i * 2)) [0..<100] s"
proof -
  have nested: "(\<exists>w'. main rt (start n) = Inr w') \<and> well_nested [] (events (main rt (start n)))"
    using main_run [of rt "start n"] by (clarsimp simp: trace_reading)
  have heap: "elem_writes (events (heapAllocationViaPointer (start n))) = map (\<lambda>i. (n, i)) [0..<10] \<and>
      length [f \<leftarrow> calls (events (heapAllocationViaPointer (start n))). f = ''createLargeObject''] = 10"
    by (simp add: heapAllocationViaPointer_run trace_reading)
  have stack: "stackStructAllocation_loop 0 s =
      fold (\<lambda>i acc. acc + (of_nat i + of_nat i * 2)) [0..<100] s"
    using stackStructAllocation_loop_fold [of 0 s] by simp
  show ?thesis
    using nested heap stack by blast
qed

end
